theory Spec2Isabelle
  imports Main "HOL-Library.Word"
begin

unbundle bit_operations_syntax

section \<open>Probe module for 8250/16550-type PCI ADDI-DATA serial ports\<close>

text \<open>
  A shallow embedding of \<^verbatim>\<open>addi_serial.c\<close>.  C \<^verbatim>\<open>int\<close> and
  \<^verbatim>\<open>unsigned int\<close> are 32-bit words (the same bits; the sign is read with
  \<open>sint\<close> where the C code compares or extends a signed value),
  \<^verbatim>\<open>resource_size_t\<close>, \<^verbatim>\<open>unsigned long\<close> and pointers are 64-bit
  words.  Calls into the kernel (region mapping, port registration, allocation) and the
  quirk hooks are recorded, in call order, in a list of events; what such a call returns
  is given by an oracle that may depend on the events so far.  Where a function can run
  into undefined behaviour of C (a walk beyond the quirk table, a read through a pointer
  to an object that no longer exists) its result is an \<open>option\<close>, and \<open>None\<close> is that
  behaviour.
\<close>

type_synonym u8 = "8 word"
type_synonym u16 = "16 word"
type_synonym u32 = "32 word"
type_synonym u64 = "64 word"

subsection \<open>Constants of the kernel headers\<close>

text \<open>
  Modelled from the spec: the macros below are used by \<^verbatim>\<open>addi_serial.c\<close> but
  defined in kernel headers that are not part of the sources
  (\<^verbatim>\<open>linux/8250_pci.h\<close>, \<^verbatim>\<open>linux/ioport.h\<close>, \<^verbatim>\<open>linux/pci_ids.h\<close>,
  \<^verbatim>\<open>linux/mod_devicetable.h\<close>, \<^verbatim>\<open>linux/serial_core.h\<close>, \<^verbatim>\<open>errno.h\<close>).
  The spec names what they stand for: the base-BAR index kept in the low bits of the
  board flags, the flag "BAR-indexed", the flag "capacity-capped", the wildcard marker
  of a quirk pattern, the region kinds memory and I/O, the class codes serial,
  multiport-serial and modem.  The values are those of the kernel headers.
\<close>

definition FL_BASE_MASK :: u32 where "FL_BASE_MASK = 0x0007"
definition FL_BASE0 :: u32 where "FL_BASE0 = 0x0000"
definition FL_BASE_BARS :: u32 where "FL_BASE_BARS = 0x0008"
definition FL_NOIRQ :: u32 where "FL_NOIRQ = 0x0080"
definition FL_REGION_SZ_CAP :: u32 where "FL_REGION_SZ_CAP = 0x0100"

definition FL_GET_BASE :: "u32 \<Rightarrow> u32" where
  "FL_GET_BASE x = x AND FL_BASE_MASK"

definition IORESOURCE_IO :: u64 where "IORESOURCE_IO = 0x00000100"
definition IORESOURCE_MEM :: u64 where "IORESOURCE_MEM = 0x00000200"

definition PCI_ANY_ID :: u32 where "PCI_ANY_ID = 0xFFFFFFFF"
definition PCI_VENDOR_ID_AMCC :: u32 where "PCI_VENDOR_ID_AMCC = 0x10e8"

definition PCI_CLASS_COMMUNICATION_SERIAL :: u32 where
  "PCI_CLASS_COMMUNICATION_SERIAL = 0x0700"
definition PCI_CLASS_COMMUNICATION_MULTISERIAL :: u32 where
  "PCI_CLASS_COMMUNICATION_MULTISERIAL = 0x0702"
definition PCI_CLASS_COMMUNICATION_MODEM :: u32 where
  "PCI_CLASS_COMMUNICATION_MODEM = 0x0703"

definition UPIO_PORT :: u8 where "UPIO_PORT = 0"
definition UPIO_MEM :: u8 where "UPIO_MEM = 2"

definition UPF_SKIP_TEST :: u32 where "UPF_SKIP_TEST = 0x00000040"
definition UPF_SHARE_IRQ :: u32 where "UPF_SHARE_IRQ = 0x01000000"
definition UPF_BOOT_AUTOCONF :: u32 where "UPF_BOOT_AUTOCONF = 0x10000000"

definition ENOMEM :: u32 where "ENOMEM = 12"
definition ENODEV :: u32 where "ENODEV = 19"
definition EINVAL :: u32 where "EINVAL = 22"

definition PCI_NUM_BAR_RESOURCES :: int where "PCI_NUM_BAR_RESOURCES = 6"

definition PCI_DEVICE_ID_AMCC_ADDIDATA_APCI7800 :: u32 where
  "PCI_DEVICE_ID_AMCC_ADDIDATA_APCI7800 = 0x818e"

subsection \<open>Data\<close>

text \<open>
  One entry of \<^verbatim>\<open>dev->resource[]\<close>: what \<^verbatim>\<open>pci_resource_flags\<close>,
  \<^verbatim>\<open>pci_resource_start\<close> and \<^verbatim>\<open>pci_resource_len\<close> read (the bus resource
  accessor of the spec: kind, base address, length).
\<close>

record pci_resource =
  res_flags :: u64
  res_start :: u64
  res_len :: u64

text \<open>
  The fields of \<^verbatim>\<open>struct pci_dev\<close> that the driver reads.  The identity fields are
  \<^verbatim>\<open>unsigned short\<close>.  The resource array is indexed by a C integer; the kernel's
  array has more than six entries (slot 6 is the expansion ROM), and the driver reads it
  before it checks the index (in \<^verbatim>\<open>pci_default_setup\<close>), so the model gives every
  index a resource.
\<close>

record pci_dev =
  vendor :: u16
  device :: u16
  subsystem_vendor :: u16
  subsystem_device :: u16
  dev_class :: u32
  dev_irq :: u32
  resource :: "int \<Rightarrow> pci_resource"

definition pci_resource_flags :: "pci_dev \<Rightarrow> int \<Rightarrow> u64" where
  "pci_resource_flags dev bar = res_flags (resource dev bar)"

definition pci_resource_start :: "pci_dev \<Rightarrow> int \<Rightarrow> u64" where
  "pci_resource_start dev bar = res_start (resource dev bar)"

definition pci_resource_len :: "pci_dev \<Rightarrow> int \<Rightarrow> u64" where
  "pci_resource_len dev bar = res_len (resource dev bar)"

text \<open>\<^verbatim>\<open>struct pciserial_board\<close> (six \<^verbatim>\<open>unsigned int\<close> fields).\<close>

record pciserial_board =
  flags :: u32
  num_ports :: u32
  base_baud :: u32
  uart_offset :: u32
  reg_shift :: u32
  first_offset :: u32

text \<open>
  The fields of \<^verbatim>\<open>struct uart_8250_port\<close> (its \<^verbatim>\<open>port\<close> member) that the
  driver writes: the resolved register window and the parameters of registration.
\<close>

record uart_port =
  iotype :: u8
  iobase :: u64
  mapbase :: u64
  membase :: u64
  regshift :: u8
  port_flags :: u32
  uartclk :: u32
  port_irq :: u32

text \<open>The calls that leave the driver, in the order they are made.\<close>

datatype event =
    Ev_probe
  | Ev_init
  | Ev_exit
  | Ev_iomap int
  | Ev_register uart_port
  | Ev_unregister u32
  | Ev_suspend u32
  | Ev_resume u32
  | Ev_enable_device
  | Ev_save_state
  | Ev_moan
  | Ev_kfree

text \<open>The ports handed to registration, in order.\<close>

fun registrations :: "event list \<Rightarrow> uart_port list" where
  "registrations [] = []"
| "registrations (Ev_register p # w) = p # registrations w"
| "registrations (e # w) = registrations w"

text \<open>
  Modelled from the spec: the kernel services the driver consumes, which are not part of
  the sources.
  \<^item> \<open>k_iomap_table w bar\<close>: the region mapper.  \<^verbatim>\<open>pcim_iomap(dev, bar, 0)\<close> enters
    the mapping of the region in the device's table, which \<^verbatim>\<open>pcim_iomap_table(dev)\<close>
    returns, and returns that entry; it returns NULL when there is no table, when the
    region is mapped already and when the mapping is refused.  The oracle gives the
    table after the call, \<open>None\<close> when \<^verbatim>\<open>pcim_iomap_table\<close> returns NULL.  As
    \<^verbatim>\<open>pcim_iomap\<close> returns a mapping only through the table, the test
    \<^verbatim>\<open>!pcim_iomap(dev, bar, 0) && !pcim_iomap_table(dev)\<close> of \<^verbatim>\<open>setup_port\<close> holds
    exactly when the table is \<open>None\<close>.  An entry of the table is 0 (NULL) where the
    mapping was refused.
  \<^item> \<open>k_kzalloc w n\<close>: whether \<^verbatim>\<open>kzalloc\<close> of a session with \<open>n\<close> handle
    slots succeeds.
  \<^item> \<open>k_register w port\<close>: the port-registration subsystem,
    \<^verbatim>\<open>serial8250_register_8250_port\<close>: a handle (line number), or a negative errno.
  \<^item> \<open>k_enable_device w\<close>: \<^verbatim>\<open>pcim_enable_device\<close>, 0 or a negative errno.
  \<^item> \<open>k_undefined_shift x n\<close>: what the machine computes for \<^verbatim>\<open>x >> n\<close> on a 64-bit
    \<open>x\<close> when \<open>n\<close> is 64 or more.  C leaves that shift undefined, so the model takes
    its value from the environment and says nothing about it.
\<close>

record kernel =
  k_iomap_table :: "event list \<Rightarrow> int \<Rightarrow> (int \<Rightarrow> u64) option"
  k_kzalloc :: "event list \<Rightarrow> u32 \<Rightarrow> bool"
  k_register :: "event list \<Rightarrow> uart_port \<Rightarrow> u32"
  k_enable_device :: "event list \<Rightarrow> u32"
  k_undefined_shift :: "u64 \<Rightarrow> nat \<Rightarrow> u64"

text \<open>
  A \<^verbatim>\<open>probe\<close> or \<^verbatim>\<open>init\<close> hook of a quirk returns a C \<^verbatim>\<open>int\<close> that may depend
  on the device and on what happened before; a negative value is an errno (one that
  \<^verbatim>\<open>IS_ERR\<close> recognises once it is wrapped by \<^verbatim>\<open>ERR_PTR\<close>).  The \<^verbatim>\<open>exit\<close> hook
  returns nothing: \<open>q_exit\<close> is \<open>Some ()\<close> when the entry names one.  What a hook does
  to the device is not modelled; its call is an event.  The per-port \<^verbatim>\<open>setup\<close> hook
  reads only \<^verbatim>\<open>priv->dev\<close> of the session it is given, so the model passes the
  device.
\<close>

type_synonym hook = "event list \<Rightarrow> pci_dev \<Rightarrow> u32"

type_synonym setup_fn =
  "kernel \<Rightarrow> pci_dev \<Rightarrow> pciserial_board \<Rightarrow> uart_port \<Rightarrow> u32 \<Rightarrow> event list
     \<Rightarrow> u32 \<times> uart_port \<times> event list"

record pci_serial_quirk =
  q_vendor :: u32
  q_device :: u32
  q_subvendor :: u32
  q_subdevice :: u32
  q_probe :: "hook option"
  q_init :: "hook option"
  q_setup :: setup_fn
  q_exit :: "unit option"

text \<open>
  A pointer to a board descriptor, \<^verbatim>\<open>const struct pciserial_board *\<close>.  The driver
  forms two kinds: the address of an entry of the static table \<^verbatim>\<open>pci_boards[]\<close>, and
  the address of \<^verbatim>\<open>tmp\<close>, the local copy in the stack frame of
  \<^verbatim>\<open>pciserial_init_one\<close>.
\<close>

datatype board_ptr = Board_entry nat | Board_tmp

text \<open>
  \<^verbatim>\<open>struct serial_private\<close>.  The field \<^verbatim>\<open>board\<close> is a pointer.  The trailing array
  \<^verbatim>\<open>line[]\<close> is a list of the length it was allocated with.
\<close>

record serial_private =
  sp_dev :: pci_dev
  nr :: u32
  quirk :: pci_serial_quirk
  board :: board_ptr
  line :: "u32 list"

subsection \<open>Resolving a port's register window\<close>

definition setup_port :: "kernel \<Rightarrow> pci_dev \<Rightarrow> uart_port \<Rightarrow> u32 \<Rightarrow> u32 \<Rightarrow> u32
    \<Rightarrow> event list \<Rightarrow> u32 \<times> uart_port \<times> event list" where
  "setup_port k dev port bar offset rshift w =
     (if PCI_NUM_BAR_RESOURCES \<le> sint bar then (- EINVAL, port, w)
      else if pci_resource_flags dev (sint bar) AND IORESOURCE_MEM \<noteq> 0 then
        (case k_iomap_table k w (sint bar) of
           None \<Rightarrow> (- ENOMEM, port, w @ [Ev_iomap (sint bar)])
         | Some tbl \<Rightarrow>
             (0,
              port\<lparr>iotype := UPIO_MEM,
                   iobase := 0,
                   mapbase := pci_resource_start dev (sint bar) + scast offset,
                   membase := tbl (sint bar) + scast offset,
                   regshift := ucast rshift\<rparr>,
              w @ [Ev_iomap (sint bar)]))
      else
        (0,
         port\<lparr>iotype := UPIO_PORT,
              iobase := pci_resource_start dev (sint bar) + scast offset,
              mapbase := 0,
              membase := 0,
              regshift := 0\<rparr>,
         w))"

text \<open>ADDI-DATA APCI-7800: two ports in each of four BARs.\<close>

definition addidata_apci7800_setup :: setup_fn where
  "addidata_apci7800_setup k dev b port idx w =
     (let offset = first_offset b;
          bar = FL_GET_BASE (flags b)
      in if sint idx < 2 then
           setup_port k dev port bar (offset + idx * uart_offset b) (reg_shift b) w
         else if 2 \<le> sint idx \<and> sint idx < 4 then
           setup_port k dev port (bar + 1) (offset + (idx - 2) * uart_offset b) (reg_shift b) w
         else if 4 \<le> sint idx \<and> sint idx < 6 then
           setup_port k dev port (bar + 2) (offset + (idx - 4) * uart_offset b) (reg_shift b) w
         else if 6 \<le> sint idx then
           setup_port k dev port (bar + 3) (offset + (idx - 6) * uart_offset b) (reg_shift b) w
         else
           setup_port k dev port bar offset (reg_shift b) w)"

text \<open>
  The default layout.  \<open>maxnr\<close> is computed in \<^verbatim>\<open>resource_size_t\<close> and stored in an
  \<^verbatim>\<open>unsigned int\<close>; \<^verbatim>\<open>idx >= maxnr\<close> compares unsigned.  The shift count
  \<^verbatim>\<open>board->reg_shift + 3\<close> is an \<^verbatim>\<open>unsigned int\<close>; at 64 or more the shift is
  undefined in C and its value is the environment's.
\<close>

definition pci_default_setup :: setup_fn where
  "pci_default_setup k dev b port idx w =
     (let bar = (if flags b AND FL_BASE_BARS \<noteq> 0
                 then FL_GET_BASE (flags b) + idx else FL_GET_BASE (flags b));
          offset = (if flags b AND FL_BASE_BARS \<noteq> 0
                    then first_offset b else first_offset b + idx * uart_offset b);
          len = pci_resource_len dev (uint bar) - ucast (first_offset b);
          maxnr = (ucast (if unat (reg_shift b + 3) < 64
                          then drop_bit (unat (reg_shift b + 3)) len
                          else k_undefined_shift k len (unat (reg_shift b + 3))) :: u32)
      in if flags b AND FL_REGION_SZ_CAP \<noteq> 0 \<and> maxnr \<le> idx then (1, port, w)
         else setup_port k dev port bar offset (reg_shift b) w)"

text \<open>
  The default layout in the words of the spec: the target BAR and the offset of a port
  index, and the capacity of a capacity-capped board, "(region length for target BAR -
  first-port offset) >> (shift + 3)", in the arithmetic of the machine (for a shift
  count below 64).
\<close>

definition spec_bar_indexed :: "pciserial_board \<Rightarrow> bool" where
  "spec_bar_indexed b \<longleftrightarrow> flags b AND FL_BASE_BARS \<noteq> 0"

definition spec_capacity_capped :: "pciserial_board \<Rightarrow> bool" where
  "spec_capacity_capped b \<longleftrightarrow> flags b AND FL_REGION_SZ_CAP \<noteq> 0"

definition spec_target_bar :: "pciserial_board \<Rightarrow> u32 \<Rightarrow> u32" where
  "spec_target_bar b idx =
     (if spec_bar_indexed b then FL_GET_BASE (flags b) + idx else FL_GET_BASE (flags b))"

definition spec_target_offset :: "pciserial_board \<Rightarrow> u32 \<Rightarrow> u32" where
  "spec_target_offset b idx =
     (if spec_bar_indexed b then first_offset b else first_offset b + idx * uart_offset b)"

definition spec_max_ports :: "pci_dev \<Rightarrow> pciserial_board \<Rightarrow> u32 \<Rightarrow> u32" where
  "spec_max_ports dev b idx =
     ucast (drop_bit (unat (reg_shift b + 3))
              (pci_resource_len dev (uint (spec_target_bar b idx)) - ucast (first_offset b)))"

subsection \<open>The quirk table and its lookup\<close>

text \<open>
  \<^verbatim>\<open>pci_serial_quirks[]\<close>: the APCI-7800 entry and the terminator.  Neither names a
  \<^verbatim>\<open>probe\<close>, \<^verbatim>\<open>init\<close> or \<^verbatim>\<open>exit\<close> hook.
\<close>

definition pci_serial_quirks :: "pci_serial_quirk list" where
  "pci_serial_quirks =
     [\<lparr>q_vendor = PCI_VENDOR_ID_AMCC,
       q_device = PCI_DEVICE_ID_AMCC_ADDIDATA_APCI7800,
       q_subvendor = PCI_ANY_ID,
       q_subdevice = PCI_ANY_ID,
       q_probe = None, q_init = None,
       q_setup = addidata_apci7800_setup,
       q_exit = None\<rparr>,
      \<lparr>q_vendor = PCI_ANY_ID,
       q_device = PCI_ANY_ID,
       q_subvendor = PCI_ANY_ID,
       q_subdevice = PCI_ANY_ID,
       q_probe = None, q_init = None,
       q_setup = pci_default_setup,
       q_exit = None\<rparr>]"

definition quirk_id_matches :: "u32 \<Rightarrow> u32 \<Rightarrow> bool" where
  "quirk_id_matches quirk_id dev_id \<longleftrightarrow> quirk_id = PCI_ANY_ID \<or> quirk_id = dev_id"

text \<open>
  The loop of \<^verbatim>\<open>find_quirk\<close> has no bound: it walks the table until an entry
  matches.  The functions that call it take the table as an argument, so that entries
  with hooks are covered; \<open>None\<close> is the walk leaving the table.
\<close>

fun find_quirk :: "pci_serial_quirk list \<Rightarrow> pci_dev \<Rightarrow> pci_serial_quirk option" where
  "find_quirk [] dev = None"
| "find_quirk (q # qs) dev =
     (if quirk_id_matches (q_vendor q) (ucast (vendor dev)) \<and>
         quirk_id_matches (q_device q) (ucast (device dev)) \<and>
         quirk_id_matches (q_subvendor q) (ucast (subsystem_vendor dev)) \<and>
         quirk_id_matches (q_subdevice q) (ucast (subsystem_device dev))
      then Some q
      else find_quirk qs dev)"

text \<open>
  The matching rule in the words of the spec: every one of the four fields of the entry
  is the wildcard marker or equals the corresponding identity field.
\<close>

definition spec_entry_matches :: "pci_dev \<Rightarrow> pci_serial_quirk \<Rightarrow> bool" where
  "spec_entry_matches dev q \<longleftrightarrow>
     (q_vendor q = PCI_ANY_ID \<or> q_vendor q = ucast (vendor dev)) \<and>
     (q_device q = PCI_ANY_ID \<or> q_device q = ucast (device dev)) \<and>
     (q_subvendor q = PCI_ANY_ID \<or> q_subvendor q = ucast (subsystem_vendor dev)) \<and>
     (q_subdevice q = PCI_ANY_ID \<or> q_subdevice q = ucast (subsystem_device dev))"

definition get_pci_irq :: "pci_dev \<Rightarrow> pciserial_board \<Rightarrow> u32" where
  "get_pci_irq dev b = (if flags b AND FL_NOIRQ \<noteq> 0 then 0 else dev_irq dev)"

subsection \<open>The board table\<close>

text \<open>
  \<^verbatim>\<open>enum pci_board_num_t\<close>: the indices of \<^verbatim>\<open>pci_boards[]\<close>.
\<close>

definition pbn_default :: nat where "pbn_default = 0"
definition pbn_b0_1_115200 :: nat where "pbn_b0_1_115200 = 1"
definition pbn_b0_2_115200 :: nat where "pbn_b0_2_115200 = 2"
definition pbn_b0_4_115200 :: nat where "pbn_b0_4_115200 = 3"
definition pbn_b0_5_115200 :: nat where "pbn_b0_5_115200 = 4"
definition pbn_b0_8_115200 :: nat where "pbn_b0_8_115200 = 5"
definition pbn_b0_1_921600 :: nat where "pbn_b0_1_921600 = 6"
definition pbn_b0_2_921600 :: nat where "pbn_b0_2_921600 = 7"
definition pbn_b0_4_921600 :: nat where "pbn_b0_4_921600 = 8"
definition pbn_b0_2_1130000 :: nat where "pbn_b0_2_1130000 = 9"
definition pbn_b0_4_1152000 :: nat where "pbn_b0_4_1152000 = 10"
definition pbn_b0_4_1250000 :: nat where "pbn_b0_4_1250000 = 11"
definition pbn_b0_2_1843200 :: nat where "pbn_b0_2_1843200 = 12"
definition pbn_b0_4_1843200 :: nat where "pbn_b0_4_1843200 = 13"
definition pbn_b0_1_4000000 :: nat where "pbn_b0_1_4000000 = 14"
definition pbn_b0_bt_1_115200 :: nat where "pbn_b0_bt_1_115200 = 15"
definition pbn_b0_bt_2_115200 :: nat where "pbn_b0_bt_2_115200 = 16"
definition pbn_b0_bt_4_115200 :: nat where "pbn_b0_bt_4_115200 = 17"
definition pbn_b0_bt_8_115200 :: nat where "pbn_b0_bt_8_115200 = 18"
definition pbn_b0_bt_1_460800 :: nat where "pbn_b0_bt_1_460800 = 19"
definition pbn_b0_bt_2_460800 :: nat where "pbn_b0_bt_2_460800 = 20"
definition pbn_b0_bt_4_460800 :: nat where "pbn_b0_bt_4_460800 = 21"
definition pbn_b0_bt_1_921600 :: nat where "pbn_b0_bt_1_921600 = 22"
definition pbn_b0_bt_2_921600 :: nat where "pbn_b0_bt_2_921600 = 23"
definition pbn_b0_bt_4_921600 :: nat where "pbn_b0_bt_4_921600 = 24"
definition pbn_b0_bt_8_921600 :: nat where "pbn_b0_bt_8_921600 = 25"
definition pbn_b1_8_115200 :: nat where "pbn_b1_8_115200 = 26"
definition pbn_ADDIDATA_PCIe_1_3906250 :: nat where "pbn_ADDIDATA_PCIe_1_3906250 = 27"
definition pbn_ADDIDATA_PCIe_2_3906250 :: nat where "pbn_ADDIDATA_PCIe_2_3906250 = 28"
definition pbn_ADDIDATA_PCIe_4_3906250 :: nat where "pbn_ADDIDATA_PCIe_4_3906250 = 29"
definition pbn_ADDIDATA_PCIe_8_3906250 :: nat where "pbn_ADDIDATA_PCIe_8_3906250 = 30"

text \<open>
  \<^verbatim>\<open>pci_boards[]\<close>, in index order.  A field that an initialiser does not name is 0.
  The table has no initialiser for \<^verbatim>\<open>pbn_b1_8_115200\<close>: that entry is all zeros.
\<close>

definition pci_boards :: "pciserial_board list" where
  "pci_boards = [
     \<comment> \<open>pbn_default\<close>
     \<lparr>flags = FL_BASE0, num_ports = 1, base_baud = 115200, uart_offset = 8, reg_shift = 0, first_offset = 0\<rparr>,
     \<comment> \<open>pbn_b0_1_115200\<close>
     \<lparr>flags = FL_BASE0, num_ports = 1, base_baud = 115200, uart_offset = 8, reg_shift = 0, first_offset = 0\<rparr>,
     \<comment> \<open>pbn_b0_2_115200\<close>
     \<lparr>flags = FL_BASE0, num_ports = 2, base_baud = 115200, uart_offset = 8, reg_shift = 0, first_offset = 0\<rparr>,
     \<comment> \<open>pbn_b0_4_115200\<close>
     \<lparr>flags = FL_BASE0, num_ports = 4, base_baud = 115200, uart_offset = 8, reg_shift = 0, first_offset = 0\<rparr>,
     \<comment> \<open>pbn_b0_5_115200\<close>
     \<lparr>flags = FL_BASE0, num_ports = 5, base_baud = 115200, uart_offset = 8, reg_shift = 0, first_offset = 0\<rparr>,
     \<comment> \<open>pbn_b0_8_115200\<close>
     \<lparr>flags = FL_BASE0, num_ports = 8, base_baud = 115200, uart_offset = 8, reg_shift = 0, first_offset = 0\<rparr>,
     \<comment> \<open>pbn_b0_1_921600\<close>
     \<lparr>flags = FL_BASE0, num_ports = 1, base_baud = 921600, uart_offset = 8, reg_shift = 0, first_offset = 0\<rparr>,
     \<comment> \<open>pbn_b0_2_921600\<close>
     \<lparr>flags = FL_BASE0, num_ports = 2, base_baud = 921600, uart_offset = 8, reg_shift = 0, first_offset = 0\<rparr>,
     \<comment> \<open>pbn_b0_4_921600\<close>
     \<lparr>flags = FL_BASE0, num_ports = 4, base_baud = 921600, uart_offset = 8, reg_shift = 0, first_offset = 0\<rparr>,
     \<comment> \<open>pbn_b0_2_1130000\<close>
     \<lparr>flags = FL_BASE0, num_ports = 2, base_baud = 1130000, uart_offset = 8, reg_shift = 0, first_offset = 0\<rparr>,
     \<comment> \<open>pbn_b0_4_1152000\<close>
     \<lparr>flags = FL_BASE0, num_ports = 4, base_baud = 1152000, uart_offset = 8, reg_shift = 0, first_offset = 0\<rparr>,
     \<comment> \<open>pbn_b0_4_1250000\<close>
     \<lparr>flags = FL_BASE0, num_ports = 4, base_baud = 1250000, uart_offset = 8, reg_shift = 0, first_offset = 0\<rparr>,
     \<comment> \<open>pbn_b0_2_1843200\<close>
     \<lparr>flags = FL_BASE0, num_ports = 2, base_baud = 1843200, uart_offset = 8, reg_shift = 0, first_offset = 0\<rparr>,
     \<comment> \<open>pbn_b0_4_1843200\<close>
     \<lparr>flags = FL_BASE0, num_ports = 4, base_baud = 1843200, uart_offset = 8, reg_shift = 0, first_offset = 0\<rparr>,
     \<comment> \<open>pbn_b0_1_4000000\<close>
     \<lparr>flags = FL_BASE0, num_ports = 1, base_baud = 4000000, uart_offset = 8, reg_shift = 0, first_offset = 0\<rparr>,
     \<comment> \<open>pbn_b0_bt_1_115200\<close>
     \<lparr>flags = FL_BASE0 OR FL_BASE_BARS, num_ports = 1, base_baud = 115200, uart_offset = 8, reg_shift = 0, first_offset = 0\<rparr>,
     \<comment> \<open>pbn_b0_bt_2_115200\<close>
     \<lparr>flags = FL_BASE0 OR FL_BASE_BARS, num_ports = 2, base_baud = 115200, uart_offset = 8, reg_shift = 0, first_offset = 0\<rparr>,
     \<comment> \<open>pbn_b0_bt_4_115200\<close>
     \<lparr>flags = FL_BASE0 OR FL_BASE_BARS, num_ports = 4, base_baud = 115200, uart_offset = 8, reg_shift = 0, first_offset = 0\<rparr>,
     \<comment> \<open>pbn_b0_bt_8_115200\<close>
     \<lparr>flags = FL_BASE0 OR FL_BASE_BARS, num_ports = 8, base_baud = 115200, uart_offset = 8, reg_shift = 0, first_offset = 0\<rparr>,
     \<comment> \<open>pbn_b0_bt_1_460800\<close>
     \<lparr>flags = FL_BASE0 OR FL_BASE_BARS, num_ports = 1, base_baud = 460800, uart_offset = 8, reg_shift = 0, first_offset = 0\<rparr>,
     \<comment> \<open>pbn_b0_bt_2_460800\<close>
     \<lparr>flags = FL_BASE0 OR FL_BASE_BARS, num_ports = 2, base_baud = 460800, uart_offset = 8, reg_shift = 0, first_offset = 0\<rparr>,
     \<comment> \<open>pbn_b0_bt_4_460800\<close>
     \<lparr>flags = FL_BASE0 OR FL_BASE_BARS, num_ports = 4, base_baud = 460800, uart_offset = 8, reg_shift = 0, first_offset = 0\<rparr>,
     \<comment> \<open>pbn_b0_bt_1_921600\<close>
     \<lparr>flags = FL_BASE0 OR FL_BASE_BARS, num_ports = 1, base_baud = 921600, uart_offset = 8, reg_shift = 0, first_offset = 0\<rparr>,
     \<comment> \<open>pbn_b0_bt_2_921600\<close>
     \<lparr>flags = FL_BASE0 OR FL_BASE_BARS, num_ports = 2, base_baud = 921600, uart_offset = 8, reg_shift = 0, first_offset = 0\<rparr>,
     \<comment> \<open>pbn_b0_bt_4_921600\<close>
     \<lparr>flags = FL_BASE0 OR FL_BASE_BARS, num_ports = 4, base_baud = 921600, uart_offset = 8, reg_shift = 0, first_offset = 0\<rparr>,
     \<comment> \<open>pbn_b0_bt_8_921600\<close>
     \<lparr>flags = FL_BASE0 OR FL_BASE_BARS, num_ports = 8, base_baud = 921600, uart_offset = 8, reg_shift = 0, first_offset = 0\<rparr>,
     \<comment> \<open>pbn_b1_8_115200\<close>
     \<lparr>flags = 0, num_ports = 0, base_baud = 0, uart_offset = 0, reg_shift = 0, first_offset = 0\<rparr>,
     \<comment> \<open>pbn_ADDIDATA_PCIe_1_3906250\<close>
     \<lparr>flags = FL_BASE0, num_ports = 1, base_baud = 3906250, uart_offset = 0x200, reg_shift = 0, first_offset = 0x1000\<rparr>,
     \<comment> \<open>pbn_ADDIDATA_PCIe_2_3906250\<close>
     \<lparr>flags = FL_BASE0, num_ports = 2, base_baud = 3906250, uart_offset = 0x200, reg_shift = 0, first_offset = 0x1000\<rparr>,
     \<comment> \<open>pbn_ADDIDATA_PCIe_4_3906250\<close>
     \<lparr>flags = FL_BASE0, num_ports = 4, base_baud = 3906250, uart_offset = 0x200, reg_shift = 0, first_offset = 0x1000\<rparr>,
     \<comment> \<open>pbn_ADDIDATA_PCIe_8_3906250\<close>
     \<lparr>flags = FL_BASE0, num_ports = 8, base_baud = 3906250, uart_offset = 0x200, reg_shift = 0, first_offset = 0x1000\<rparr>]"

text \<open>
  What a board pointer points to.  \<open>tmp\<close> is the content of the local \<^verbatim>\<open>tmp\<close> of
  \<^verbatim>\<open>pciserial_init_one\<close> while a frame of that function is live, and \<open>None\<close> when
  there is none: then a read through \<open>Board_tmp\<close> has no defined result.  The table
  \<^verbatim>\<open>pci_boards[]\<close> is static and never written.
\<close>

definition board_at :: "pciserial_board option \<Rightarrow> board_ptr \<Rightarrow> pciserial_board option" where
  "board_at tmp p =
     (case p of
        Board_entry i \<Rightarrow> if i < length pci_boards then Some (pci_boards ! i) else None
      | Board_tmp \<Rightarrow> tmp)"

subsection \<open>Guessing the board of an unknown device\<close>

definition serial_pci_is_class_communication :: "pci_dev \<Rightarrow> u32" where
  "serial_pci_is_class_communication dev =
     (if (drop_bit 8 (dev_class dev) \<noteq> PCI_CLASS_COMMUNICATION_SERIAL \<and>
          drop_bit 8 (dev_class dev) \<noteq> PCI_CLASS_COMMUNICATION_MULTISERIAL \<and>
          drop_bit 8 (dev_class dev) \<noteq> PCI_CLASS_COMMUNICATION_MODEM) \<or>
         6 < (dev_class dev AND 0xff)
      then - ENODEV else 0)"

text \<open>
  The first loop over the six BARs: it counts the I/O regions and the memory regions and
  remembers the first I/O region.  The state is \<open>(num_iomem, num_port, first_port)\<close>.
\<close>

function count_regions :: "pci_dev \<Rightarrow> int \<Rightarrow> int \<times> int \<times> int \<Rightarrow> int \<times> int \<times> int" where
  "count_regions dev i (num_iomem, num_port, first_port) =
     (if i < PCI_NUM_BAR_RESOURCES then
        (let (num_port', first_port') =
               (if pci_resource_flags dev i AND IORESOURCE_IO \<noteq> 0
                then (num_port + 1, if first_port = - 1 then i else first_port)
                else (num_port, first_port));
             num_iomem' =
               (if pci_resource_flags dev i AND IORESOURCE_MEM \<noteq> 0
                then num_iomem + 1 else num_iomem)
         in count_regions dev (i + 1) (num_iomem', num_port', first_port'))
      else (num_iomem, num_port, first_port))"
  by pat_completeness auto
termination
  by (relation "measure (\<lambda>(dev, i, s). nat (PCI_NUM_BAR_RESOURCES - i))") auto

declare count_regions.simps [simp del]

text \<open>
  The second loop: a run of consecutive I/O BARs of 8 bytes each.  The state is
  \<open>(num_port, first_port)\<close>.
\<close>

function scan_bars :: "pci_dev \<Rightarrow> int \<Rightarrow> int \<times> int \<Rightarrow> int \<times> int" where
  "scan_bars dev i (num_port, first_port) =
     (if i < PCI_NUM_BAR_RESOURCES then
        (if pci_resource_flags dev i AND IORESOURCE_IO \<noteq> 0 \<and>
            pci_resource_len dev i = 8 \<and>
            (first_port = - 1 \<or> first_port + num_port = i)
         then scan_bars dev (i + 1) (num_port + 1, if first_port = - 1 then i else first_port)
         else scan_bars dev (i + 1) (num_port, first_port))
      else (num_port, first_port))"
  by pat_completeness auto
termination
  by (relation "measure (\<lambda>(dev, i, s). nat (PCI_NUM_BAR_RESOURCES - i))") auto

declare scan_bars.simps [simp del]

text \<open>
  \<^verbatim>\<open>serial_pci_guess_board\<close> returns 0 and writes \<^verbatim>\<open>board->flags\<close> and
  \<^verbatim>\<open>board->num_ports\<close>, or returns \<^verbatim>\<open>-ENODEV\<close> and leaves the board as it was.
  The model returns the return code and the board.
\<close>

definition serial_pci_guess_board :: "pci_dev \<Rightarrow> pciserial_board \<Rightarrow> u32 \<times> pciserial_board" where
  "serial_pci_guess_board dev b =
     (let rc = serial_pci_is_class_communication dev in
      if rc \<noteq> 0 then (rc, b)
      else if drop_bit 8 (dev_class dev) = PCI_CLASS_COMMUNICATION_MULTISERIAL
      then (- ENODEV, b)
      else
        (case count_regions dev 0 (0, 0, - 1) of
           (num_iomem, num_port, first_port) \<Rightarrow>
             if num_iomem \<le> 1 \<and> num_port = 1 then
               (0, b\<lparr>flags := word_of_int first_port,
                      num_ports := ucast (pci_resource_len dev first_port div 8)\<rparr>)
             else
               (case scan_bars dev 0 (0, - 1) of
                  (num_port2, first_port2) \<Rightarrow>
                    if 1 < num_port2 then
                      (0, b\<lparr>flags := word_of_int first_port2 OR FL_BASE_BARS,
                             num_ports := word_of_int num_port2\<rparr>)
                    else (- ENODEV, b))))"

definition serial_pci_matches :: "pciserial_board \<Rightarrow> pciserial_board \<Rightarrow> bool" where
  "serial_pci_matches b guessed \<longleftrightarrow>
     num_ports b = num_ports guessed \<and>
     base_baud b = base_baud guessed \<and>
     uart_offset b = uart_offset guessed \<and>
     reg_shift b = reg_shift guessed \<and>
     first_offset b = first_offset guessed"

text \<open>
  The regions of a device in the words of the spec: the I/O regions and the memory
  regions among its six BARs, in index order.
\<close>

definition spec_io_regions :: "pci_dev \<Rightarrow> int list" where
  "spec_io_regions dev =
     filter (\<lambda>i. pci_resource_flags dev i AND IORESOURCE_IO \<noteq> 0) [0..5]"

definition spec_mem_regions :: "pci_dev \<Rightarrow> int list" where
  "spec_mem_regions dev =
     filter (\<lambda>i. pci_resource_flags dev i AND IORESOURCE_MEM \<noteq> 0) [0..5]"

subsection \<open>Attaching the ports of a device\<close>

text \<open>
  The body of the attach loop, for \<^verbatim>\<open>i\<close> from 0 while \<^verbatim>\<open>i < nr_ports\<close> (a signed
  comparison).  The loop leaves at the first index whose \<^verbatim>\<open>setup\<close> returns non-zero
  or whose registration returns a negative handle (which is stored all the same).  The
  result is the final \<^verbatim>\<open>i\<close>, the handles, the port structure and the events.
\<close>

function attach_loop :: "kernel \<Rightarrow> pci_serial_quirk \<Rightarrow> pci_dev \<Rightarrow> pciserial_board \<Rightarrow> u32
    \<Rightarrow> nat \<Rightarrow> u32 list \<Rightarrow> uart_port \<Rightarrow> event list
    \<Rightarrow> nat \<times> u32 list \<times> uart_port \<times> event list" where
  "attach_loop k q dev b nr_ports i ln uart w =
     (if int i < sint nr_ports then
        (case q_setup q k dev b uart (of_nat i) w of
           (rc, uart', w') \<Rightarrow>
             if rc \<noteq> 0 then (i, ln, uart', w')
             else
               (let l = k_register k w' uart';
                    ln' = ln[i := l];
                    w'' = w' @ [Ev_register uart']
                in if sint l < 0 then (i, ln', uart', w'')
                   else attach_loop k q dev b nr_ports (Suc i) ln' uart' w''))
      else (i, ln, uart, w))"
  by pat_completeness auto
termination
  by (relation "measure (\<lambda>(k, q, dev, b, nr_ports, i, ln, uart, w). nat (sint nr_ports) - i)")
    auto

declare attach_loop.simps [simp del]

text \<open>
  The parts of \<^verbatim>\<open>addi_pciserial_init_ports\<close> before the loop.  \<open>run_init\<close> is the
  block \<^verbatim>\<open>if (quirk->init)\<close>: the return code of the hook and the events after it,
  \<open>(0, w)\<close> when the quirk has no such hook.  \<open>nr_ports_of\<close> is \<^verbatim>\<open>nr_ports\<close> after
  that block.  \<open>uart_template\<close> is the port structure after \<^verbatim>\<open>memset\<close> and the
  four assignments.
\<close>

definition run_init :: "pci_serial_quirk \<Rightarrow> pci_dev \<Rightarrow> event list \<Rightarrow> u32 \<times> event list" where
  "run_init q dev w =
     (case q_init q of None \<Rightarrow> (0, w) | Some h \<Rightarrow> (h w dev, w @ [Ev_init]))"

definition nr_ports_of :: "pciserial_board \<Rightarrow> u32 \<Rightarrow> u32" where
  "nr_ports_of b rc = (if rc \<noteq> 0 then rc else num_ports b)"

definition uart_template :: "pci_dev \<Rightarrow> pciserial_board \<Rightarrow> uart_port" where
  "uart_template dev b =
     \<lparr>iotype = 0, iobase = 0, mapbase = 0, membase = 0, regshift = 0,
      port_flags = UPF_SKIP_TEST OR UPF_BOOT_AUTOCONF OR UPF_SHARE_IRQ,
      uartclk = base_baud b * 16,
      port_irq = get_pci_irq dev b\<rparr>"

text \<open>
  \<^verbatim>\<open>addi_pciserial_init_ports\<close> is given the pointer \<^verbatim>\<open>board\<close> and reads through it
  first (\<^verbatim>\<open>nr_ports = board->num_ports\<close>); \<open>tmp\<close> says what \<open>Board_tmp\<close> points to
  during the call.  It returns a session or \<^verbatim>\<open>ERR_PTR(rc)\<close>: \<open>Inr\<close> the session,
  \<open>Inl\<close> the error code.  A negative return code of the \<^verbatim>\<open>init\<close> hook leaves
  through \<^verbatim>\<open>err_out\<close>; a failed allocation leaves through \<^verbatim>\<open>err_deinit\<close>, which
  calls the \<^verbatim>\<open>exit\<close> hook.  After the loop the session is returned with
  \<^verbatim>\<open>priv->nr = i\<close> and \<^verbatim>\<open>priv->board = board\<close>, the pointer.
\<close>

definition addi_pciserial_init_ports :: "kernel \<Rightarrow> pci_serial_quirk list \<Rightarrow> pci_dev
    \<Rightarrow> pciserial_board option \<Rightarrow> board_ptr \<Rightarrow> event list
    \<Rightarrow> ((u32 + serial_private) \<times> event list) option" where
  "addi_pciserial_init_ports k tbl dev tmp bp w =
     (case board_at tmp bp of
        None \<Rightarrow> None
      | Some b \<Rightarrow>
     (case find_quirk tbl dev of
        None \<Rightarrow> None
      | Some q \<Rightarrow>
          Some
            (case run_init q dev w of
               (rc, w1) \<Rightarrow>
                 if sint rc < 0 then (Inl rc, w1)
                 else if \<not> k_kzalloc k w1 (nr_ports_of b rc) then
                   (Inl (- ENOMEM),
                    (case q_exit q of None \<Rightarrow> w1 | Some u \<Rightarrow> w1 @ [Ev_exit]))
                 else
                   (case attach_loop k q dev b (nr_ports_of b rc) 0
                           (replicate (nat (sint (nr_ports_of b rc))) 0)
                           (uart_template dev b) w1 of
                      (i, ln, uart', w2) \<Rightarrow>
                        (Inr \<lparr>sp_dev = dev, nr = of_nat i, quirk = q, board = bp,
                              line = ln\<rparr>,
                         w2)))))"

text \<open>
  The run of the attach loop from index 0 in the words of the spec: "for port indices
  0..count-1 in order, call setup; each resolved window is handed to the port
  registration".  \<open>attach_state \<dots> s j\<close> is the state (handles, port structure, events)
  reached from \<open>s\<close> when the indices below \<open>j\<close> have each been set up and registered;
  \<open>attach_setup_at \<dots> s j\<close> is what \<^verbatim>\<open>setup\<close> returns for index \<open>j\<close> in that state, and
  \<open>index_attaches \<dots> s j\<close> says that index \<open>j\<close> resolves and registers.
\<close>

primrec attach_state :: "kernel \<Rightarrow> pci_serial_quirk \<Rightarrow> pci_dev \<Rightarrow> pciserial_board
    \<Rightarrow> u32 list \<times> uart_port \<times> event list \<Rightarrow> nat \<Rightarrow> u32 list \<times> uart_port \<times> event list" where
  "attach_state k q dev b s 0 = s"
| "attach_state k q dev b s (Suc j) =
     (case attach_state k q dev b s j of
        (ln, uart, w) \<Rightarrow>
          (case q_setup q k dev b uart (of_nat j) w of
             (rc, uart', w') \<Rightarrow>
               (ln[j := k_register k w' uart'], uart', w' @ [Ev_register uart'])))"

definition attach_setup_at :: "kernel \<Rightarrow> pci_serial_quirk \<Rightarrow> pci_dev \<Rightarrow> pciserial_board
    \<Rightarrow> u32 list \<times> uart_port \<times> event list \<Rightarrow> nat \<Rightarrow> u32 \<times> uart_port \<times> event list" where
  "attach_setup_at k q dev b s j =
     (case attach_state k q dev b s j of
        (ln, uart, w) \<Rightarrow> q_setup q k dev b uart (of_nat j) w)"

definition index_attaches :: "kernel \<Rightarrow> pci_serial_quirk \<Rightarrow> pci_dev \<Rightarrow> pciserial_board
    \<Rightarrow> u32 list \<times> uart_port \<times> event list \<Rightarrow> nat \<Rightarrow> bool" where
  "index_attaches k q dev b s j \<longleftrightarrow>
     (case attach_setup_at k q dev b s j of
        (rc, uart', w') \<Rightarrow> rc = 0 \<and> 0 \<le> sint (k_register k w' uart'))"

subsection \<open>Detach, suspend and resume\<close>

text \<open>
  The three loops over the attached ports, \<^verbatim>\<open>for (i = 0; i < priv->nr; i++)\<close>, each
  given the handles, \<^verbatim>\<open>priv->nr\<close>, the index and the events so far.  The comparison
  is unsigned.  A read of \<^verbatim>\<open>line[i]\<close> beyond the allocated array has no meaning
  here; the properties below are about sessions whose \<^verbatim>\<open>nr\<close> is within the array, as
  attach builds them.
\<close>

function unregister_loop :: "u32 list \<Rightarrow> u32 \<Rightarrow> nat \<Rightarrow> event list \<Rightarrow> event list" where
  "unregister_loop ln n i w =
     (if i < unat n then unregister_loop ln n (Suc i) (w @ [Ev_unregister (ln ! i)])
      else w)"
  by pat_completeness auto
termination
  by (relation "measure (\<lambda>(ln, n, i, w). unat n - i)") auto

declare unregister_loop.simps [simp del]

function suspend_loop :: "u32 list \<Rightarrow> u32 \<Rightarrow> nat \<Rightarrow> event list \<Rightarrow> event list" where
  "suspend_loop ln n i w =
     (if i < unat n then
        suspend_loop ln n (Suc i)
          (if 0 \<le> sint (ln ! i) then w @ [Ev_suspend (ln ! i)] else w)
      else w)"
  by pat_completeness auto
termination
  by (relation "measure (\<lambda>(ln, n, i, w). unat n - i)") auto

declare suspend_loop.simps [simp del]

function resume_loop :: "u32 list \<Rightarrow> u32 \<Rightarrow> nat \<Rightarrow> event list \<Rightarrow> event list" where
  "resume_loop ln n i w =
     (if i < unat n then
        resume_loop ln n (Suc i)
          (if 0 \<le> sint (ln ! i) then w @ [Ev_resume (ln ! i)] else w)
      else w)"
  by pat_completeness auto
termination
  by (relation "measure (\<lambda>(ln, n, i, w). unat n - i)") auto

declare resume_loop.simps [simp del]

definition pciserial_detach_ports :: "pci_serial_quirk list \<Rightarrow> serial_private \<Rightarrow> event list
    \<Rightarrow> event list option" where
  "pciserial_detach_ports tbl priv w =
     (let w1 = unregister_loop (line priv) (nr priv) 0 w
      in case find_quirk tbl (sp_dev priv) of
           None \<Rightarrow> None
         | Some q \<Rightarrow> Some (case q_exit q of None \<Rightarrow> w1 | Some u \<Rightarrow> w1 @ [Ev_exit]))"

definition addi_pciserial_remove_ports :: "pci_serial_quirk list \<Rightarrow> serial_private
    \<Rightarrow> event list \<Rightarrow> event list option" where
  "addi_pciserial_remove_ports tbl priv w =
     (case pciserial_detach_ports tbl priv w of
        None \<Rightarrow> None
      | Some w1 \<Rightarrow> Some (w1 @ [Ev_kfree]))"

definition addi_pciserial_suspend_ports :: "serial_private \<Rightarrow> event list \<Rightarrow> event list" where
  "addi_pciserial_suspend_ports priv w =
     (let w1 = suspend_loop (line priv) (nr priv) 0 w
      in case q_exit (quirk priv) of None \<Rightarrow> w1 | Some u \<Rightarrow> w1 @ [Ev_exit])"

text \<open>The return value of the \<^verbatim>\<open>init\<close> hook is not read on resume.\<close>

definition addi_pciserial_resume_ports :: "serial_private \<Rightarrow> event list \<Rightarrow> event list" where
  "addi_pciserial_resume_ports priv w =
     (let w1 = (case q_init (quirk priv) of None \<Rightarrow> w | Some h \<Rightarrow> w @ [Ev_init])
      in resume_loop (line priv) (nr priv) 0 w1)"

subsection \<open>Probe and recovery after a bus fault\<close>

text \<open>
  The parts of \<^verbatim>\<open>pciserial_init_one\<close>.  \<open>run_probe\<close> is the block
  \<^verbatim>\<open>if (quirk->probe)\<close>.  \<open>resolve_board\<close> is the block that follows
  \<^verbatim>\<open>pcim_enable_device\<close>: for \<^verbatim>\<open>pbn_default\<close> the table entry is copied to the local
  \<^verbatim>\<open>tmp\<close>, \<^verbatim>\<open>board\<close> is set to \<^verbatim>\<open>&tmp\<close> and the heuristic writes \<^verbatim>\<open>tmp\<close>; for
  any other index \<^verbatim>\<open>board\<close> stays the address of the table entry, and the heuristic
  runs on a copy of the default entry only to report a redundant entry.  The result is
  the return code, \<^verbatim>\<open>board\<close>, the content of \<^verbatim>\<open>tmp\<close> and the events.
\<close>

definition run_probe :: "pci_serial_quirk \<Rightarrow> pci_dev \<Rightarrow> event list \<Rightarrow> u32 \<times> event list" where
  "run_probe q dev w =
     (case q_probe q of None \<Rightarrow> (0, w) | Some h \<Rightarrow> (h w dev, w @ [Ev_probe]))"

definition resolve_board :: "pci_dev \<Rightarrow> nat \<Rightarrow> event list
    \<Rightarrow> u32 \<times> board_ptr \<times> pciserial_board \<times> event list" where
  "resolve_board dev driver_data w =
     (if driver_data = pbn_default then
        (case serial_pci_guess_board dev (pci_boards ! driver_data) of
           (r, tmp) \<Rightarrow> (r, Board_tmp, tmp, w))
      else
        (case serial_pci_guess_board dev (pci_boards ! pbn_default) of
           (r, tmp) \<Rightarrow>
             (0, Board_entry driver_data, tmp,
              if r = 0 \<and> serial_pci_matches (pci_boards ! driver_data) tmp
              then w @ [Ev_moan] else w)))"

text \<open>
  \<^verbatim>\<open>pciserial_init_one\<close>, given \<^verbatim>\<open>ent->driver_data\<close>.  The result is the return
  code, the driver data of the device (the session, once \<^verbatim>\<open>pci_set_drvdata\<close> has
  stored it), the content of the local \<^verbatim>\<open>tmp\<close> at the return (\<open>None\<close> when it was
  never written) and the events.  The frame, and \<^verbatim>\<open>tmp\<close> with it, ends at the return.
\<close>

definition pciserial_init_one :: "kernel \<Rightarrow> pci_serial_quirk list \<Rightarrow> pci_dev \<Rightarrow> nat
    \<Rightarrow> serial_private option \<Rightarrow> event list
    \<Rightarrow> (u32 \<times> serial_private option \<times> pciserial_board option \<times> event list) option" where
  "pciserial_init_one k tbl dev driver_data drvdata w =
     (case find_quirk tbl dev of
        None \<Rightarrow> None
      | Some q \<Rightarrow>
          (case run_probe q dev w of
             (rc, w1) \<Rightarrow>
               if rc \<noteq> 0 then Some (rc, drvdata, None, w1)
               else if length pci_boards \<le> driver_data
               then Some (- EINVAL, drvdata, None, w1)
               else if k_enable_device k w1 \<noteq> 0
               then Some (k_enable_device k w1, drvdata, None,
                          w1 @ [Ev_enable_device, Ev_save_state])
               else
                 (case resolve_board dev driver_data
                         (w1 @ [Ev_enable_device, Ev_save_state]) of
                    (rc3, bp, tmp, w3) \<Rightarrow>
                      if rc3 \<noteq> 0 then Some (rc3, drvdata, Some tmp, w3)
                      else
                        (case addi_pciserial_init_ports k tbl dev (Some tmp) bp w3 of
                           None \<Rightarrow> None
                         | Some (Inl e, w4) \<Rightarrow> Some (e, drvdata, Some tmp, w4)
                         | Some (Inr priv, w4) \<Rightarrow> Some (0, Some priv, Some tmp, w4)))))"

text \<open>
  \<^verbatim>\<open>serial8250_io_resume\<close>: the driver data of the device and the events, before and
  after.  It is called by the bus framework, when no frame of \<^verbatim>\<open>pciserial_init_one\<close>
  exists: \<^verbatim>\<open>priv->board\<close> is passed on as it is, and \<open>Board_tmp\<close> points to nothing.
\<close>

definition serial8250_io_resume :: "kernel \<Rightarrow> pci_serial_quirk list \<Rightarrow> pci_dev
    \<Rightarrow> serial_private option \<Rightarrow> event list \<Rightarrow> (serial_private option \<times> event list) option" where
  "serial8250_io_resume k tbl dev drvdata w =
     (case drvdata of
        None \<Rightarrow> Some (None, w)
      | Some priv \<Rightarrow>
          (case addi_pciserial_init_ports k tbl dev None (board priv) w of
             None \<Rightarrow> None
           | Some (Inl e, w1) \<Rightarrow> Some (Some priv, w1)
           | Some (Inr new, w1) \<Rightarrow> Some (Some new, w1 @ [Ev_kfree])))"

subsection \<open>Concrete kernels, devices, boards and quirk tables\<close>

text \<open>
  A kernel that grants every request: the mapping of BAR \<open>bar\<close> is at
  \<open>0xffffc90000000000 + 0x10000 * bar\<close>, and the handle of a registration is the
  number of ports registered before it; an undefined shift is by the count modulo 64.
  A kernel that refuses every mapping (and has no table of mappings), one whose table
  exists but whose mappings are refused, one that refuses every registration, one that
  refuses every registration after the first, and one that refuses every allocation.
\<close>

definition ex_kernel :: kernel where
  "ex_kernel =
     \<lparr>k_iomap_table = (\<lambda>w bar. Some (\<lambda>i. 0xffffc90000000000 + 0x10000 * word_of_int i)),
      k_kzalloc = (\<lambda>w n. True),
      k_register = (\<lambda>w port. of_nat (length (registrations w))),
      k_enable_device = (\<lambda>w. 0),
      k_undefined_shift = (\<lambda>x n. drop_bit (n mod 64) x)\<rparr>"

definition ex_kernel_no_map :: kernel where
  "ex_kernel_no_map = ex_kernel\<lparr>k_iomap_table := (\<lambda>w bar. None)\<rparr>"

definition ex_kernel_null_map :: kernel where
  "ex_kernel_null_map = ex_kernel\<lparr>k_iomap_table := (\<lambda>w bar. Some (\<lambda>i. 0))\<rparr>"

definition ex_kernel_reg_once :: kernel where
  "ex_kernel_reg_once =
     ex_kernel\<lparr>k_register := (\<lambda>w port. if registrations w = [] then 0 else - 16)\<rparr>"

definition ex_kernel_no_reg :: kernel where
  "ex_kernel_no_reg = ex_kernel\<lparr>k_register := (\<lambda>w port. - 16)\<rparr>"

definition ex_kernel_no_mem :: kernel where
  "ex_kernel_no_mem = ex_kernel\<lparr>k_kzalloc := (\<lambda>w n. False)\<rparr>"

definition ex_port :: uart_port where
  "ex_port = \<lparr>iotype = 0, iobase = 0, mapbase = 0, membase = 0, regshift = 0,
              port_flags = 0, uartclk = 0, port_irq = 0\<rparr>"

definition no_resource :: pci_resource where
  "no_resource = \<lparr>res_flags = 0, res_start = 0, res_len = 0\<rparr>"

text \<open>
  A 16550 serial controller (class 0x070002) whose BAR 0 is one I/O region of 64 bytes;
  the same device with the class code 0x078000 (communication controller, other) and
  with the class code 0x070200 (multiport serial controller); the same device with an
  I/O region of 16 bytes only; the same device with no region at all; a device whose
  BAR 0 is a memory region of 64 bytes; a device whose every resource slot is an I/O
  region of 64 bytes.
\<close>

definition ex_dev_io :: pci_dev where
  "ex_dev_io =
     \<lparr>vendor = 0x15b8, device = 0x7000, subsystem_vendor = 0, subsystem_device = 0,
      dev_class = 0x070002, dev_irq = 11,
      resource = (\<lambda>i. if i = 0
                       then \<lparr>res_flags = IORESOURCE_IO, res_start = 0xd000, res_len = 64\<rparr>
                       else no_resource)\<rparr>"

definition ex_dev_other :: pci_dev where
  "ex_dev_other = ex_dev_io\<lparr>dev_class := 0x078000\<rparr>"

definition ex_dev_multi :: pci_dev where
  "ex_dev_multi = ex_dev_io\<lparr>dev_class := 0x070200\<rparr>"

definition ex_dev_io16 :: pci_dev where
  "ex_dev_io16 =
     ex_dev_io\<lparr>resource := (\<lambda>i. if i = 0
                       then \<lparr>res_flags = IORESOURCE_IO, res_start = 0xd000, res_len = 16\<rparr>
                       else no_resource)\<rparr>"

definition ex_dev_none :: pci_dev where
  "ex_dev_none = ex_dev_io\<lparr>resource := (\<lambda>i. no_resource)\<rparr>"

definition ex_dev_mem :: pci_dev where
  "ex_dev_mem =
     ex_dev_io\<lparr>resource := (\<lambda>i. if i = 0
                       then \<lparr>res_flags = IORESOURCE_MEM, res_start = 0xfe000000, res_len = 64\<rparr>
                       else no_resource)\<rparr>"

definition ex_dev_wide :: pci_dev where
  "ex_dev_wide =
     ex_dev_io\<lparr>resource := (\<lambda>i. \<lparr>res_flags = IORESOURCE_IO,
                                    res_start = 0xd000 + 0x100 * word_of_int i,
                                    res_len = 64\<rparr>)\<rparr>"

text \<open>
  Boards: four ports packed in BAR 0, capacity-capped; eight ports, one per BAR from
  BAR 0, capacity-capped; the APCI-7800 layout from BAR 1; the content of
  \<^verbatim>\<open>pci_boards[pbn_b0_2_115200]\<close>; the board that the heuristic resolves for the
  device with one I/O region of 64 bytes.
\<close>

definition ex_board_cap :: pciserial_board where
  "ex_board_cap =
     \<lparr>flags = FL_BASE0 OR FL_REGION_SZ_CAP, num_ports = 4, base_baud = 115200,
      uart_offset = 8, reg_shift = 0, first_offset = 0\<rparr>"

definition ex_board_bars_cap :: pciserial_board where
  "ex_board_bars_cap =
     \<lparr>flags = FL_BASE0 OR FL_BASE_BARS OR FL_REGION_SZ_CAP, num_ports = 8,
      base_baud = 115200, uart_offset = 8, reg_shift = 0, first_offset = 0\<rparr>"

definition ex_board_2 :: pciserial_board where
  "ex_board_2 =
     \<lparr>flags = 0, num_ports = 2, base_baud = 115200,
      uart_offset = 8, reg_shift = 0, first_offset = 0\<rparr>"

definition ex_board_guessed :: pciserial_board where
  "ex_board_guessed =
     \<lparr>flags = 0, num_ports = 8, base_baud = 115200,
      uart_offset = 8, reg_shift = 0, first_offset = 0\<rparr>"

definition ex_board_b1_8 :: pciserial_board where
  "ex_board_b1_8 =
     \<lparr>flags = 1, num_ports = 8, base_baud = 115200,
      uart_offset = 8, reg_shift = 0, first_offset = 0\<rparr>"

text \<open>
  A quirk table whose only entry matches every device and has all four hooks; its
  \<^verbatim>\<open>init\<close> hook fails with \<^verbatim>\<open>-ENODEV\<close>.  The same table with an \<^verbatim>\<open>init\<close> hook
  that succeeds.
\<close>

definition ex_quirk_init_fails :: pci_serial_quirk where
  "ex_quirk_init_fails =
     \<lparr>q_vendor = PCI_ANY_ID, q_device = PCI_ANY_ID,
      q_subvendor = PCI_ANY_ID, q_subdevice = PCI_ANY_ID,
      q_probe = Some (\<lambda>w dev. 0),
      q_init = Some (\<lambda>w dev. - ENODEV),
      q_setup = pci_default_setup,
      q_exit = Some ()\<rparr>"

definition ex_quirk_init_ok :: pci_serial_quirk where
  "ex_quirk_init_ok = ex_quirk_init_fails\<lparr>q_init := Some (\<lambda>w dev. 0)\<rparr>"

text \<open>The terminator entry of \<^verbatim>\<open>pci_serial_quirks\<close>.\<close>

definition ex_terminator :: pci_serial_quirk where
  "ex_terminator = pci_serial_quirks ! 1"

text \<open>
  The port structure of a port-I/O window at \<open>base\<close>, as attach fills it for a board of
  base baud 115200 on the example devices (interrupt 11).
\<close>

definition ex_uart :: "u64 \<Rightarrow> uart_port" where
  "ex_uart base =
     \<lparr>iotype = 0, iobase = base, mapbase = 0, membase = 0, regshift = 0,
      port_flags = 0x11000040, uartclk = 1843200, port_irq = 11\<rparr>"

text \<open>
  The session that the probe of the device with one I/O region of 64 bytes stores when
  the device is routed to \<^verbatim>\<open>pbn_default\<close>: eight ports, and \<^verbatim>\<open>board\<close> the address
  of the local \<^verbatim>\<open>tmp\<close>.
\<close>

definition ex_probed :: serial_private where
  "ex_probed =
     \<lparr>sp_dev = ex_dev_io, nr = 8, quirk = ex_terminator,
      board = Board_tmp, line = [0, 1, 2, 3, 4, 5, 6, 7]\<rparr>"

text \<open>The events of that probe: the device is enabled and eight ports are registered.\<close>

definition ex_probe_events :: "event list" where
  "ex_probe_events =
     [Ev_enable_device, Ev_save_state,
      Ev_register (ex_uart 0xd000), Ev_register (ex_uart 0xd008),
      Ev_register (ex_uart 0xd010), Ev_register (ex_uart 0xd018),
      Ev_register (ex_uart 0xd020), Ev_register (ex_uart 0xd028),
      Ev_register (ex_uart 0xd030), Ev_register (ex_uart 0xd038)]"

text \<open>
  A session of the two-port board with two attached ports, bound to the quirk whose
  \<^verbatim>\<open>init\<close> hook fails; its array of handles has a third slot.
\<close>

definition ex_session :: serial_private where
  "ex_session =
     \<lparr>sp_dev = ex_dev_io, nr = 2, quirk = ex_quirk_init_fails,
      board = Board_entry pbn_b0_2_115200, line = [3, 4, 0]\<rparr>"

text \<open>
  What the examples observe of an attach: the attached count of the session it returns
  (\<open>None\<close> when it returns an error).
\<close>

definition attached_count :: "((u32 + serial_private) \<times> event list) option \<Rightarrow> nat option" where
  "attached_count r =
     (case r of Some (Inr priv, w) \<Rightarrow> Some (unat (nr priv)) | _ \<Rightarrow> None)"

text \<open>The terminator of the quirk table in the words of the spec: all four fields wildcards.\<close>

definition spec_terminator :: "pci_serial_quirk \<Rightarrow> bool" where
  "spec_terminator q \<longleftrightarrow>
     q_vendor q = PCI_ANY_ID \<and> q_device q = PCI_ANY_ID \<and>
     q_subvendor q = PCI_ANY_ID \<and> q_subdevice q = PCI_ANY_ID"

section \<open>Properties\<close>

lemmas const_defs = FL_BASE_MASK_def FL_BASE0_def FL_BASE_BARS_def FL_NOIRQ_def
  FL_REGION_SZ_CAP_def FL_GET_BASE_def IORESOURCE_IO_def IORESOURCE_MEM_def
  PCI_NUM_BAR_RESOURCES_def EINVAL_def ENOMEM_def ENODEV_def UPIO_PORT_def UPIO_MEM_def
  pci_resource_flags_def pci_resource_len_def pci_resource_start_def

lemmas class_defs = PCI_CLASS_COMMUNICATION_SERIAL_def PCI_CLASS_COMMUNICATION_MULTISERIAL_def
  PCI_CLASS_COMMUNICATION_MODEM_def

lemmas ex_defs = ex_kernel_def ex_kernel_no_map_def ex_kernel_null_map_def
  ex_kernel_reg_once_def ex_kernel_no_reg_def ex_kernel_no_mem_def
  ex_port_def no_resource_def ex_dev_io_def ex_dev_other_def ex_dev_multi_def ex_dev_io16_def
  ex_dev_none_def
  ex_dev_mem_def ex_dev_wide_def ex_board_cap_def ex_board_bars_cap_def ex_board_b1_8_def

lemmas spec_setup_defs = spec_max_ports_def spec_target_bar_def spec_target_offset_def
  spec_bar_indexed_def spec_capacity_capped_def

subsection \<open>Resolving a window\<close>

lemma unat_ucast_u32_u64: "unat (ucast (x::u32) :: u64) = unat x"
  by (simp add: unsigned_ucast_eq take_bit_nat_eq_self_iff order_less_trans [OF unsigned_less])

lemma unat_ucast_u64_u32: "unat (ucast (x::u64) :: u32) = unat x mod 2 ^ 32"
  by (simp add: unsigned_ucast_eq take_bit_eq_mod)

lemma maxnr_nat:
  assumes "unat (fo::u32) \<le> unat (len::u64)" and "unat (sh::u32) + 3 < 64"
  shows "unat (ucast (drop_bit (unat (sh + 3)) (len - ucast fo)) :: u32) =
         ((unat len - unat fo) div 2 ^ (unat sh + 3)) mod 2 ^ 32"
proof -
  have b: "unat (len - ucast fo) = unat len - unat fo"
    using assms(1) by (simp add: unat_sub word_le_nat_alt unat_ucast_u32_u64)
  have c: "unat (sh + 3) = unat sh + 3"
    using assms(2) by (simp add: unat_word_ariths)
  have "unat (drop_bit (unat (sh + 3)) (len - ucast fo)) =
        drop_bit (unat (sh + 3)) (unat (len - ucast fo))"
    by (rule unat_drop_bit_eq)
  also have "\<dots> = unat (len - ucast fo) div 2 ^ unat (sh + 3)"
    by (rule drop_bit_eq_div)
  finally have d: "unat (drop_bit (unat (sh + 3)) (len - ucast fo)) =
      (unat len - unat fo) div 2 ^ (unat sh + 3)"
    by (simp only: b c)
  show ?thesis
    by (simp only: unat_ucast_u64_u32 d)
qed

text \<open>
  C1 (as amended).  On a board whose shift count \<^verbatim>\<open>reg_shift + 3\<close> is below 64,
  \<^verbatim>\<open>pci_default_setup\<close> targets BAR = base BAR + index when the board is BAR-indexed,
  and otherwise the base BAR with offset = first-port offset + index times the stride.
  On a capacity-capped board it returns "not present" (1, nothing touched) for every
  index at or above the capacity "(length of the target BAR - first-port offset) >>
  (reg shift + 3)"; for every other index, and on every board that is not
  capacity-capped, it returns what \<^verbatim>\<open>setup_port\<close> returns for the target BAR, the
  offset and the register shift.  \<^verbatim>\<open>setup_port\<close> returns \<^verbatim>\<open>-EINVAL\<close>, nothing
  touched, for a BAR of 6 or more.  For a memory BAR below 6 it returns \<^verbatim>\<open>-ENOMEM\<close>,
  the port untouched, when \<^verbatim>\<open>pcim_iomap\<close> returns NULL and the device has no table of
  mappings; when the table exists it returns 0 and the memory window: map base =
  region start + offset, memory base = entry of the table + offset (also where that
  entry is NULL because the mapping was refused), shift = the register shift.  For any
  other BAR below 6 it returns 0 and the port-I/O window: I/O base = region start +
  offset, shift 0.  Where the region is at least as long as the first-port offset, the
  capacity is the number (length - first offset) div 2^(shift + 3), cut to 32 bits.
\<close>

theorem pci_default_setup_window:
  "(unat (reg_shift b + 3) < 64 \<longrightarrow>
      pci_default_setup k dev b port idx w =
        (if spec_capacity_capped b \<and> spec_max_ports dev b idx \<le> idx then (1, port, w)
         else setup_port k dev port (spec_target_bar b idx) (spec_target_offset b idx)
                (reg_shift b) w)) \<and>
   (6 \<le> sint bar \<longrightarrow> setup_port k dev port bar off sh w = (- EINVAL, port, w)) \<and>
   (sint bar < 6 \<and> pci_resource_flags dev (sint bar) AND IORESOURCE_MEM \<noteq> 0 \<and>
    k_iomap_table k w (sint bar) = None \<longrightarrow>
      setup_port k dev port bar off sh w = (- ENOMEM, port, w @ [Ev_iomap (sint bar)])) \<and>
   (sint bar < 6 \<and> pci_resource_flags dev (sint bar) AND IORESOURCE_MEM \<noteq> 0 \<and>
    k_iomap_table k w (sint bar) = Some tbl \<longrightarrow>
      setup_port k dev port bar off sh w =
        (0,
         port\<lparr>iotype := UPIO_MEM, iobase := 0,
              mapbase := pci_resource_start dev (sint bar) + scast off,
              membase := tbl (sint bar) + scast off,
              regshift := ucast sh\<rparr>,
         w @ [Ev_iomap (sint bar)])) \<and>
   (sint bar < 6 \<and> pci_resource_flags dev (sint bar) AND IORESOURCE_MEM = 0 \<longrightarrow>
      setup_port k dev port bar off sh w =
        (0,
         port\<lparr>iotype := UPIO_PORT,
              iobase := pci_resource_start dev (sint bar) + scast off,
              mapbase := 0, membase := 0, regshift := 0\<rparr>,
         w)) \<and>
   sint (- EINVAL) = - 22 \<and> sint (- ENOMEM) = - 12 \<and> UPIO_PORT = 0 \<and> UPIO_MEM = 2 \<and>
   (unat (first_offset b) \<le> unat (pci_resource_len dev (uint (spec_target_bar b idx))) \<and>
    unat (reg_shift b) + 3 < 64 \<longrightarrow>
      unat (spec_max_ports dev b idx) =
        ((unat (pci_resource_len dev (uint (spec_target_bar b idx))) - unat (first_offset b))
           div 2 ^ (unat (reg_shift b) + 3)) mod 2 ^ 32)"
proof -
  have A: "pci_default_setup k dev b port idx w =
        (if spec_capacity_capped b \<and> spec_max_ports dev b idx \<le> idx then (1, port, w)
         else setup_port k dev port (spec_target_bar b idx) (spec_target_offset b idx)
                (reg_shift b) w)"
    if "unat (reg_shift b + 3) < 64"
    using that by (simp add: pci_default_setup_def spec_setup_defs Let_def)
  have B: "setup_port k dev port bar off sh w = (- EINVAL, port, w)" if "6 \<le> sint bar"
    using that by (simp add: setup_port_def PCI_NUM_BAR_RESOURCES_def)
  have C: "setup_port k dev port bar off sh w = (- ENOMEM, port, w @ [Ev_iomap (sint bar)])"
    if "sint bar < 6 \<and> pci_resource_flags dev (sint bar) AND IORESOURCE_MEM \<noteq> 0 \<and>
        k_iomap_table k w (sint bar) = None"
    using that by (simp add: setup_port_def PCI_NUM_BAR_RESOURCES_def)
  have D: "setup_port k dev port bar off sh w =
        (0,
         port\<lparr>iotype := UPIO_MEM, iobase := 0,
              mapbase := pci_resource_start dev (sint bar) + scast off,
              membase := tbl (sint bar) + scast off,
              regshift := ucast sh\<rparr>,
         w @ [Ev_iomap (sint bar)])"
    if "sint bar < 6 \<and> pci_resource_flags dev (sint bar) AND IORESOURCE_MEM \<noteq> 0 \<and>
        k_iomap_table k w (sint bar) = Some tbl"
    using that by (simp add: setup_port_def PCI_NUM_BAR_RESOURCES_def)
  have E: "setup_port k dev port bar off sh w =
        (0,
         port\<lparr>iotype := UPIO_PORT,
              iobase := pci_resource_start dev (sint bar) + scast off,
              mapbase := 0, membase := 0, regshift := 0\<rparr>,
         w)"
    if "sint bar < 6 \<and> pci_resource_flags dev (sint bar) AND IORESOURCE_MEM = 0"
    using that by (simp add: setup_port_def PCI_NUM_BAR_RESOURCES_def)
  have F: "sint (- EINVAL) = - 22" "sint (- ENOMEM) = - 12" "UPIO_PORT = 0" "UPIO_MEM = 2"
    by (simp_all add: EINVAL_def ENOMEM_def UPIO_PORT_def UPIO_MEM_def)
  have G: "unat (spec_max_ports dev b idx) =
        ((unat (pci_resource_len dev (uint (spec_target_bar b idx))) - unat (first_offset b))
           div 2 ^ (unat (reg_shift b) + 3)) mod 2 ^ 32"
    if "unat (first_offset b) \<le> unat (pci_resource_len dev (uint (spec_target_bar b idx))) \<and>
        unat (reg_shift b) + 3 < 64"
    using that unfolding spec_max_ports_def by (intro maxnr_nat) simp_all
  from A B C D E F G show ?thesis by blast
qed

text \<open>
  The capacity-capped board of eight-bytes stride on the device with one I/O region of
  64 bytes: the capacity is 8, index 3 resolves the port-I/O window at 0xd000 + 24,
  index 8 is not present.  BAR 6 is rejected.  On the device whose BAR 0 is a memory
  region, offset 8: with the table of mappings the window has map base 0xfe000008 and
  memory base the mapping + 8; with a table whose entry is NULL the result is still 0,
  with memory base 8; with no table the result is \<^verbatim>\<open>-ENOMEM\<close>.
\<close>

theorem pci_default_setup_window_witness:
  "unat (reg_shift ex_board_cap + 3) < 64 \<and>
   spec_capacity_capped ex_board_cap \<and>
   unat (first_offset ex_board_cap)
     \<le> unat (pci_resource_len ex_dev_io (uint (spec_target_bar ex_board_cap 3))) \<and>
   unat (spec_max_ports ex_dev_io ex_board_cap 3) = 8 \<and>
   pci_default_setup ex_kernel ex_dev_io ex_board_cap ex_port 3 [] =
     (0, ex_port\<lparr>iobase := 0xd018\<rparr>, []) \<and>
   pci_default_setup ex_kernel ex_dev_io ex_board_cap ex_port 8 [] = (1, ex_port, []) \<and>
   setup_port ex_kernel ex_dev_wide ex_port 6 0 0 [] = (- EINVAL, ex_port, []) \<and>
   setup_port ex_kernel ex_dev_mem ex_port 0 8 0 [] =
     (0, ex_port\<lparr>iotype := 2, mapbase := 0xfe000008, membase := 0xffffc90000000008\<rparr>,
      [Ev_iomap 0]) \<and>
   setup_port ex_kernel_null_map ex_dev_mem ex_port 0 8 0 [] =
     (0, ex_port\<lparr>iotype := 2, mapbase := 0xfe000008, membase := 8\<rparr>, [Ev_iomap 0]) \<and>
   setup_port ex_kernel_no_map ex_dev_mem ex_port 0 8 0 [] =
     (- ENOMEM, ex_port, [Ev_iomap 0])"
proof -
  have sh: "unat (reg_shift ex_board_cap + 3) < 64" "unat (reg_shift ex_board_cap) + 3 < 64"
    "spec_capacity_capped ex_board_cap"
    "unat (first_offset ex_board_cap)
       \<le> unat (pci_resource_len ex_dev_io (uint (spec_target_bar ex_board_cap 3)))"
    by (simp_all add: spec_setup_defs ex_defs const_defs)
  have c: "unat (spec_max_ports ex_dev_io ex_board_cap 3) = 8"
    using pci_default_setup_window [of ex_board_cap ex_kernel ex_dev_io ex_port 3 "[]" 0 0 0]
      sh
    by (simp add: spec_target_bar_def spec_bar_indexed_def ex_defs const_defs)
  have io: "sint (spec_target_bar ex_board_cap 3) < 6 \<and>
      pci_resource_flags ex_dev_io (sint (spec_target_bar ex_board_cap 3)) AND IORESOURCE_MEM = 0"
    "\<not> spec_max_ports ex_dev_io ex_board_cap 3 \<le> 3"
    "spec_max_ports ex_dev_io ex_board_cap 8 \<le> 8"
    by (simp_all add: spec_setup_defs ex_defs const_defs)
  have p3: "pci_default_setup ex_kernel ex_dev_io ex_board_cap ex_port 3 [] =
     (0, ex_port\<lparr>iobase := 0xd018\<rparr>, [])"
    using pci_default_setup_window [of ex_board_cap ex_kernel ex_dev_io ex_port 3 "[]"
        "spec_target_bar ex_board_cap 3" "spec_target_offset ex_board_cap 3"
        "reg_shift ex_board_cap"] sh(1) sh(3) io
    by (simp add: spec_target_bar_def spec_target_offset_def spec_bar_indexed_def ex_defs
        const_defs)
  have p8: "pci_default_setup ex_kernel ex_dev_io ex_board_cap ex_port 8 [] = (1, ex_port, [])"
    using pci_default_setup_window [of ex_board_cap ex_kernel ex_dev_io ex_port 8 "[]" 0 0 0]
      sh(1) sh(3) io(3)
    by simp
  have b6: "setup_port ex_kernel ex_dev_wide ex_port 6 0 0 [] = (- EINVAL, ex_port, [])"
    using pci_default_setup_window [of ex_board_cap ex_kernel ex_dev_wide ex_port 0 "[]" 6 0 0]
    by simp
  have m: "pci_resource_flags ex_dev_mem (sint (0::u32)) AND IORESOURCE_MEM \<noteq> 0"
    "pci_resource_start ex_dev_mem (sint (0::u32)) = 0xfe000000"
    by (simp_all add: ex_defs const_defs)
  have t: "k_iomap_table ex_kernel [] (sint (0::u32)) =
             Some (\<lambda>i. 0xffffc90000000000 + 0x10000 * word_of_int i)"
    "k_iomap_table ex_kernel_null_map [] (sint (0::u32)) = Some (\<lambda>i. 0)"
    "k_iomap_table ex_kernel_no_map [] (sint (0::u32)) = None"
    by (simp_all add: ex_defs)
  have m1: "setup_port ex_kernel ex_dev_mem ex_port 0 8 0 [] =
     (0, ex_port\<lparr>iotype := 2, mapbase := 0xfe000008, membase := 0xffffc90000000008\<rparr>,
      [Ev_iomap 0])"
    using pci_default_setup_window [of ex_board_cap ex_kernel ex_dev_mem ex_port 0 "[]" 0 8 0
        "\<lambda>i. 0xffffc90000000000 + 0x10000 * word_of_int i"] m t(1)
    by (simp add: ex_port_def)
  have m2: "setup_port ex_kernel_null_map ex_dev_mem ex_port 0 8 0 [] =
     (0, ex_port\<lparr>iotype := 2, mapbase := 0xfe000008, membase := 8\<rparr>, [Ev_iomap 0])"
    using pci_default_setup_window [of ex_board_cap ex_kernel_null_map ex_dev_mem ex_port 0
        "[]" 0 8 0 "\<lambda>i. 0"] m t(2)
    by (simp add: ex_port_def)
  have m3: "setup_port ex_kernel_no_map ex_dev_mem ex_port 0 8 0 [] =
     (- ENOMEM, ex_port, [Ev_iomap 0])"
    using pci_default_setup_window [of ex_board_cap ex_kernel_no_map ex_dev_mem ex_port 0
        "[]" 0 8 0] m t(3)
    by simp
  from sh c p3 p8 b6 m1 m2 m3 show ?thesis by simp
qed

text \<open>
  C1 as stated fails: below the capacity of a capacity-capped board the window is not
  always resolved.  On the board with one port per BAR, index 6 is below the capacity
  8 and targets BAR 6, which \<^verbatim>\<open>setup_port\<close> rejects with \<^verbatim>\<open>-EINVAL\<close>; on the
  packed board over a memory region, with a kernel that returns no mapping and no
  table, index 0 is below the capacity 8 and the result is \<^verbatim>\<open>-ENOMEM\<close>.
\<close>

theorem pci_default_setup_valid_window_counterexample:
  "spec_capacity_capped ex_board_bars_cap \<and>
   (6::u32) < spec_max_ports ex_dev_wide ex_board_bars_cap 6 \<and>
   fst (pci_default_setup ex_kernel ex_dev_wide ex_board_bars_cap ex_port 6 []) = - EINVAL \<and>
   spec_capacity_capped ex_board_cap \<and>
   (0::u32) < spec_max_ports ex_dev_mem ex_board_cap 0 \<and>
   fst (pci_default_setup ex_kernel_no_map ex_dev_mem ex_board_cap ex_port 0 []) = - ENOMEM"
  by (simp add: pci_default_setup_def setup_port_def ex_defs const_defs spec_setup_defs)

lemma idx_cases8:
  assumes "0 \<le> sint (idx::u32)" "sint idx < 8"
  shows "idx \<in> {0, 1, 2, 3, 4, 5, 6, 7}"
proof -
  have e: "idx = v" if "sint idx = sint v" for v
    using that by (rule signed_word_eqI)
  have "sint idx \<in> {0, 1, 2, 3, 4, 5, 6, 7}" using assms by auto
  then show ?thesis
    using e [of 0] e [of 1] e [of 2] e [of 3] e [of 4] e [of 5] e [of 6] e [of 7]
    by auto
qed

text \<open>
  C6.  For every port index in [0, 8), \<^verbatim>\<open>addidata_apci7800_setup\<close> resolves, through
  \<^verbatim>\<open>setup_port\<close>, BAR = base BAR + index div 2 and offset = first-port offset +
  (index mod 2) times the stride.
\<close>

theorem apci7800_two_ports_per_bar:
  assumes "0 \<le> sint idx" and "sint idx < 8"
  shows "addidata_apci7800_setup k dev b port idx w =
         setup_port k dev port (FL_GET_BASE (flags b) + idx div 2)
           (first_offset b + (idx mod 2) * uart_offset b) (reg_shift b) w"
proof -
  from assms have "idx \<in> {0, 1, 2, 3, 4, 5, 6, 7}" by (rule idx_cases8)
  then show ?thesis
    by (auto simp: addidata_apci7800_setup_def Let_def)
qed

text \<open>
  Index 5 of the layout based at BAR 1: BAR 3 (I/O at 0xd300), offset 8.
\<close>

theorem apci7800_two_ports_per_bar_witness:
  "0 \<le> sint (5::u32) \<and> sint (5::u32) < 8 \<and>
   addidata_apci7800_setup ex_kernel ex_dev_wide ex_board_b1_8 ex_port 5 [] =
     setup_port ex_kernel ex_dev_wide ex_port 3 8 0 [] \<and>
   setup_port ex_kernel ex_dev_wide ex_port 3 8 0 [] = (0, ex_port\<lparr>iobase := 0xd308\<rparr>, [])"
  using apci7800_two_ports_per_bar [of 5 ex_kernel ex_dev_wide ex_board_b1_8 ex_port "[]"]
  by (simp add: setup_port_def ex_defs const_defs)

subsection \<open>The quirk lookup\<close>

lemma find_quirk_find: "find_quirk tbl dev = List.find (spec_entry_matches dev) tbl"
  by (induction tbl) (simp_all add: spec_entry_matches_def quirk_id_matches_def)

lemma terminator_matches: "spec_terminator q \<Longrightarrow> spec_entry_matches dev q"
  by (simp add: spec_terminator_def spec_entry_matches_def)

text \<open>
  C2.  \<^verbatim>\<open>find_quirk\<close> returns the first entry, in table order, each of whose four
  fields is the wildcard or equals the identity field of the device.  On a table whose
  final entry is the all-wildcard terminator it never fails; the final entry of
  \<^verbatim>\<open>pci_serial_quirks\<close> is that terminator, so the lookup over it returns an entry for
  every device.
\<close>

theorem find_quirk_first_match:
  "find_quirk tbl dev = List.find (spec_entry_matches dev) tbl \<and>
   (tbl \<noteq> [] \<and> spec_terminator (last tbl) \<longrightarrow>
      (\<exists>i < length tbl. find_quirk tbl dev = Some (tbl ! i) \<and>
         spec_entry_matches dev (tbl ! i) \<and>
         (\<forall>j < i. \<not> spec_entry_matches dev (tbl ! j)))) \<and>
   pci_serial_quirks \<noteq> [] \<and> spec_terminator (last pci_serial_quirks) \<and>
   (\<exists>q. find_quirk pci_serial_quirks dev = Some q)"
proof -
  have total: "\<exists>i < length t. find_quirk t dev = Some (t ! i) \<and>
         spec_entry_matches dev (t ! i) \<and> (\<forall>j < i. \<not> spec_entry_matches dev (t ! j))"
    if "t \<noteq> []" and "spec_terminator (last t)" for t
  proof -
    from that have "last t \<in> set t" and "spec_entry_matches dev (last t)"
      by (simp_all add: terminator_matches)
    then have "List.find (spec_entry_matches dev) t \<noteq> None"
      by (auto simp: find_None_iff)
    then obtain q where "List.find (spec_entry_matches dev) t = Some q" by auto
    then show ?thesis
      by (auto simp: find_quirk_find find_Some_iff)
  qed
  have fin: "pci_serial_quirks \<noteq> []" "spec_terminator (last pci_serial_quirks)"
    by (simp_all add: pci_serial_quirks_def spec_terminator_def)
  from total [OF fin] have "\<exists>q. find_quirk pci_serial_quirks dev = Some q" by blast
  with total fin show ?thesis
    by (simp add: find_quirk_find)
qed

text \<open>
  An APCI-7800 (AMCC 0x10e8, device 0x818e) finds the first entry of the table, any other
  device the terminator.
\<close>

theorem find_quirk_first_match_witness:
  "pci_serial_quirks \<noteq> [] \<and> spec_terminator (last pci_serial_quirks) \<and>
   find_quirk pci_serial_quirks (ex_dev_io\<lparr>vendor := 0x10e8, device := 0x818e\<rparr>) =
     Some (pci_serial_quirks ! 0) \<and>
   find_quirk pci_serial_quirks ex_dev_io = Some (pci_serial_quirks ! 1) \<and>
   \<not> spec_entry_matches ex_dev_io (pci_serial_quirks ! 0)"
  using find_quirk_first_match [of pci_serial_quirks ex_dev_io]
  by (simp add: pci_serial_quirks_def spec_terminator_def spec_entry_matches_def
      quirk_id_matches_def ex_dev_io_def PCI_ANY_ID_def PCI_VENDOR_ID_AMCC_def
      PCI_DEVICE_ID_AMCC_ADDIDATA_APCI7800_def)

subsection \<open>The board heuristic\<close>

lemma count_regions_from:
  "0 \<le> i \<Longrightarrow>
   count_regions dev i (m, p, f) =
     (m + int (length (filter (\<lambda>i. pci_resource_flags dev i AND IORESOURCE_MEM \<noteq> 0) [i..5])),
      p + int (length (filter (\<lambda>i. pci_resource_flags dev i AND IORESOURCE_IO \<noteq> 0) [i..5])),
      if f = - 1
      then (case filter (\<lambda>i. pci_resource_flags dev i AND IORESOURCE_IO \<noteq> 0) [i..5] of
              [] \<Rightarrow> - 1 | j # js \<Rightarrow> j)
      else f)"
proof (induction "nat (6 - i)" arbitrary: i m p f)
  case 0
  then show ?case
    by (subst count_regions.simps) (simp add: PCI_NUM_BAR_RESOURCES_def)
next
  case (Suc n)
  then have lt: "i < 6" and n: "n = nat (6 - (i + 1))" and nn: "0 \<le> i + 1" by auto
  have u: "[i..5] = i # [i + 1..5]" using lt by (simp add: upto_rec1)
  show ?case
    apply (subst count_regions.simps)
    apply (simp add: PCI_NUM_BAR_RESOURCES_def lt u Let_def Suc.hyps(1) [OF n nn] del: upto.simps)
    using Suc.prems apply auto
    done
qed

lemma count_regions_spec:
  "count_regions dev 0 (0, 0, - 1) =
     (int (length (spec_mem_regions dev)), int (length (spec_io_regions dev)),
      case spec_io_regions dev of [] \<Rightarrow> - 1 | j # js \<Rightarrow> j)"
  by (simp add: count_regions_from spec_io_regions_def spec_mem_regions_def del: upto.simps)


lemma slots: "[0..5] = [0, 1, 2, 3, 4, 5::int]"
  by (simp add: upto_rec1)

lemma guess_writes_two_fields:
  "\<exists>f n. snd (serial_pci_guess_board dev b) = b\<lparr>flags := f, num_ports := n\<rparr>"
proof -
  have same: "b = b\<lparr>flags := flags b, num_ports := num_ports b\<rparr>" by simp
  show ?thesis
    unfolding serial_pci_guess_board_def Let_def
    by (auto split: prod.splits intro: same)
qed

lemma guess_multiserial:
  "drop_bit 8 (dev_class dev) = PCI_CLASS_COMMUNICATION_MULTISERIAL
     \<Longrightarrow> serial_pci_guess_board dev b = (- ENODEV, b)"
  by (simp add: serial_pci_guess_board_def Let_def serial_pci_is_class_communication_def)

lemma guess_phase1:
  assumes "serial_pci_is_class_communication dev = 0"
    and "drop_bit 8 (dev_class dev) \<noteq> PCI_CLASS_COMMUNICATION_MULTISERIAL"
    and "length (spec_mem_regions dev) \<le> 1" and "spec_io_regions dev = [j]"
  shows "serial_pci_guess_board dev b =
           (0, b\<lparr>flags := word_of_int j, num_ports := ucast (pci_resource_len dev j div 8)\<rparr>)"
  using assms by (simp add: serial_pci_guess_board_def count_regions_spec)

lemma class_ok_iff:
  "serial_pci_is_class_communication dev = 0 \<longleftrightarrow>
     (drop_bit 8 (dev_class dev) = PCI_CLASS_COMMUNICATION_SERIAL \<or>
      drop_bit 8 (dev_class dev) = PCI_CLASS_COMMUNICATION_MULTISERIAL \<or>
      drop_bit 8 (dev_class dev) = PCI_CLASS_COMMUNICATION_MODEM) \<and>
     dev_class dev AND 0xff \<le> 6"
  by (auto simp: serial_pci_is_class_communication_def ENODEV_def)

lemma io_slot_range: "spec_io_regions dev = [j] \<Longrightarrow> j \<in> {0, 1, 2, 3, 4, 5}"
proof -
  assume "spec_io_regions dev = [j]"
  then have "j \<in> set (spec_io_regions dev)" by simp
  then show ?thesis by (auto simp: spec_io_regions_def)
qed

lemma base_of_slot:
  "j \<in> {0, 1, 2, 3, 4, 5::int} \<Longrightarrow>
     FL_GET_BASE (word_of_int j) = word_of_int j \<and> (word_of_int j :: u32) AND FL_BASE_BARS = 0"
  by (auto simp: FL_GET_BASE_def FL_BASE_MASK_def FL_BASE_BARS_def)

lemma ex_dev_regions:
  "spec_io_regions ex_dev_io = [0]" "spec_mem_regions ex_dev_io = []"
  "spec_io_regions ex_dev_other = [0]" "spec_mem_regions ex_dev_other = []"
  by (simp_all add: spec_io_regions_def spec_mem_regions_def slots ex_defs const_defs)

lemma ex_dev_io_class:
  "serial_pci_is_class_communication ex_dev_io = 0"
  "drop_bit 8 (dev_class ex_dev_io) = PCI_CLASS_COMMUNICATION_SERIAL"
  "drop_bit 8 (dev_class ex_dev_io) \<noteq> PCI_CLASS_COMMUNICATION_MULTISERIAL"
  "dev_class ex_dev_io AND 0xff \<le> 6"
  "pci_resource_len ex_dev_io 0 = 64"
  by (simp_all add: serial_pci_is_class_communication_def ex_defs const_defs class_defs)

text \<open>
  C5 (as amended).  A device of multiport-serial class is always rejected with
  \<^verbatim>\<open>-ENODEV\<close>.  A device of serial or modem communication class with a programming
  interface of at most 6 that exposes at most one memory region and exactly one I/O
  region, BAR \<open>j\<close>, is resolved at once: the flags are \<open>j\<close> and the port count is the
  length of that region divided by 8 (cut to 32 bits, so exactly that for a length
  below 2^35); a region of 64 bytes gives 8 ports.  A device whose class is none of
  serial, multiport-serial and modem, or whose programming interface exceeds 6, is
  rejected whatever its regions.
\<close>

theorem guess_board_phase1:
  "(drop_bit 8 (dev_class dev) = PCI_CLASS_COMMUNICATION_MULTISERIAL \<longrightarrow>
      serial_pci_guess_board dev b = (- ENODEV, b)) \<and>
   ((drop_bit 8 (dev_class dev) \<noteq> PCI_CLASS_COMMUNICATION_SERIAL \<and>
     drop_bit 8 (dev_class dev) \<noteq> PCI_CLASS_COMMUNICATION_MULTISERIAL \<and>
     drop_bit 8 (dev_class dev) \<noteq> PCI_CLASS_COMMUNICATION_MODEM) \<or>
    6 < dev_class dev AND 0xff \<longrightarrow>
      serial_pci_guess_board dev b = (- ENODEV, b)) \<and>
   ((drop_bit 8 (dev_class dev) = PCI_CLASS_COMMUNICATION_SERIAL \<or>
     drop_bit 8 (dev_class dev) = PCI_CLASS_COMMUNICATION_MODEM) \<and>
    dev_class dev AND 0xff \<le> 6 \<and>
    length (spec_mem_regions dev) \<le> 1 \<and> spec_io_regions dev = [j] \<longrightarrow>
      serial_pci_guess_board dev b =
        (0, b\<lparr>flags := word_of_int j,
               num_ports := ucast (pci_resource_len dev j div 8)\<rparr>) \<and>
      (pci_resource_len dev j = 64 \<longrightarrow> num_ports (snd (serial_pci_guess_board dev b)) = 8) \<and>
      (unat (pci_resource_len dev j) < 2 ^ 35 \<longrightarrow>
         unat (num_ports (snd (serial_pci_guess_board dev b))) =
           unat (pci_resource_len dev j) div 8))"
proof -
  have A: "serial_pci_guess_board dev b = (- ENODEV, b)"
    if "drop_bit 8 (dev_class dev) = PCI_CLASS_COMMUNICATION_MULTISERIAL"
    using that by (rule guess_multiserial)
  have B: "serial_pci_guess_board dev b =
        (0, b\<lparr>flags := word_of_int j,
               num_ports := ucast (pci_resource_len dev j div 8)\<rparr>) \<and>
      (pci_resource_len dev j = 64 \<longrightarrow> num_ports (snd (serial_pci_guess_board dev b)) = 8) \<and>
      (unat (pci_resource_len dev j) < 2 ^ 35 \<longrightarrow>
         unat (num_ports (snd (serial_pci_guess_board dev b))) =
           unat (pci_resource_len dev j) div 8)"
    if h: "(drop_bit 8 (dev_class dev) = PCI_CLASS_COMMUNICATION_SERIAL \<or>
       drop_bit 8 (dev_class dev) = PCI_CLASS_COMMUNICATION_MODEM) \<and>
      dev_class dev AND 0xff \<le> 6 \<and>
      length (spec_mem_regions dev) \<le> 1 \<and> spec_io_regions dev = [j]"
  proof -
    from h have c: "serial_pci_is_class_communication dev = 0"
      by (auto simp: class_ok_iff)
    from h have m: "drop_bit 8 (dev_class dev) \<noteq> PCI_CLASS_COMMUNICATION_MULTISERIAL"
      by (auto simp: class_defs)
    from h c m have g: "serial_pci_guess_board dev b =
        (0, b\<lparr>flags := word_of_int j,
               num_ports := ucast (pci_resource_len dev j div 8)\<rparr>)"
      by (simp add: guess_phase1)
    have l: "unat (num_ports (snd (serial_pci_guess_board dev b))) =
           unat (pci_resource_len dev j) div 8"
      if l: "unat (pci_resource_len dev j) < 2 ^ 35"
    proof -
      have "unat (pci_resource_len dev j div 8) = unat (pci_resource_len dev j) div 8"
        by (simp add: unat_div)
      moreover have "unat (pci_resource_len dev j) div 8 < 2 ^ 32" using l by simp
      ultimately show ?thesis
        by (simp add: g unat_ucast_u64_u32)
    qed
    show ?thesis using l by (simp add: g)
  qed
  have C: "serial_pci_guess_board dev b = (- ENODEV, b)"
    if "(drop_bit 8 (dev_class dev) \<noteq> PCI_CLASS_COMMUNICATION_SERIAL \<and>
         drop_bit 8 (dev_class dev) \<noteq> PCI_CLASS_COMMUNICATION_MULTISERIAL \<and>
         drop_bit 8 (dev_class dev) \<noteq> PCI_CLASS_COMMUNICATION_MODEM) \<or>
        6 < dev_class dev AND 0xff"
    using that
    by (auto simp: serial_pci_guess_board_def serial_pci_is_class_communication_def ENODEV_def)
  from A B C show ?thesis by blast
qed

text \<open>
  The 16550 controller with one I/O region of 64 bytes is resolved with 8 ports; the
  same device with the multiport-serial class code is rejected, and so is the same
  device with the class code 0x0780.
\<close>

theorem guess_board_phase1_witness:
  "drop_bit 8 (dev_class ex_dev_io) = PCI_CLASS_COMMUNICATION_SERIAL \<and>
   dev_class ex_dev_io AND 0xff \<le> 6 \<and>
   length (spec_mem_regions ex_dev_io) \<le> 1 \<and> spec_io_regions ex_dev_io = [0] \<and>
   pci_resource_len ex_dev_io 0 = 64 \<and>
   serial_pci_guess_board ex_dev_io (pci_boards ! pbn_default) =
     (0, (pci_boards ! pbn_default)\<lparr>flags := 0, num_ports := 8\<rparr>) \<and>
   drop_bit 8 (dev_class ex_dev_multi) = PCI_CLASS_COMMUNICATION_MULTISERIAL \<and>
   serial_pci_guess_board ex_dev_multi (pci_boards ! pbn_default) =
     (- ENODEV, pci_boards ! pbn_default) \<and>
   drop_bit 8 (dev_class ex_dev_other) = 0x0780 \<and>
   serial_pci_guess_board ex_dev_other (pci_boards ! pbn_default) =
     (- ENODEV, pci_boards ! pbn_default)"
proof -
  have m: "drop_bit 8 (dev_class ex_dev_multi) = PCI_CLASS_COMMUNICATION_MULTISERIAL"
    by (simp add: ex_defs class_defs)
  have c: "drop_bit 8 (dev_class ex_dev_io) \<noteq> PCI_CLASS_COMMUNICATION_MODEM"
    by (simp add: ex_defs class_defs)
  have "drop_bit 8 (dev_class ex_dev_other) = 0x0780" by (simp add: ex_defs)
  then have o: "drop_bit 8 (dev_class ex_dev_other) = 0x0780"
    "drop_bit 8 (dev_class ex_dev_other) \<noteq> PCI_CLASS_COMMUNICATION_SERIAL"
    "drop_bit 8 (dev_class ex_dev_other) \<noteq> PCI_CLASS_COMMUNICATION_MULTISERIAL"
    "drop_bit 8 (dev_class ex_dev_other) \<noteq> PCI_CLASS_COMMUNICATION_MODEM"
    by (simp_all add: class_defs)
  show ?thesis
    using guess_board_phase1 [of ex_dev_io "pci_boards ! pbn_default" 0]
      guess_board_phase1 [of ex_dev_multi "pci_boards ! pbn_default" 0]
      guess_board_phase1 [of ex_dev_other "pci_boards ! pbn_default" 0]
    by (simp add: ex_dev_regions ex_dev_io_class m c o class_defs)
qed

text \<open>
  C5 as stated fails: a device that is not of multiport-serial class and exposes no
  memory region and exactly one I/O region of 64 bytes is rejected with
  \<^verbatim>\<open>-ENODEV\<close> when its class code is none of serial, multiport-serial and modem
  (here 0x0780, communication controller, other).
\<close>

theorem guess_board_phase1_counterexample:
  "drop_bit 8 (dev_class ex_dev_other) \<noteq> PCI_CLASS_COMMUNICATION_MULTISERIAL \<and>
   length (spec_mem_regions ex_dev_other) \<le> 1 \<and> spec_io_regions ex_dev_other = [0] \<and>
   pci_resource_len ex_dev_other 0 = 64 \<and>
   serial_pci_guess_board ex_dev_other (pci_boards ! pbn_default) =
     (- ENODEV, pci_boards ! pbn_default) \<and>
   - ENODEV \<noteq> (0::u32)"
  by (simp add: ex_dev_regions)
    (simp add: serial_pci_guess_board_def serial_pci_is_class_communication_def
      ex_defs const_defs class_defs)

subsection \<open>Suspend and resume\<close>

lemma suspend_loop_from:
  "unat n \<le> length ln \<Longrightarrow>
   suspend_loop ln n i w =
     w @ map Ev_suspend (filter (\<lambda>l. 0 \<le> sint l) (drop i (take (unat n) ln)))"
proof (induction "unat n - i" arbitrary: i w)
  case 0
  then show ?case by (subst suspend_loop.simps) simp
next
  case (Suc m)
  then have lt: "i < unat n" and m: "m = unat n - Suc i" by auto
  from lt Suc.prems have "i < length (take (unat n) ln)" by simp
  then have d: "drop i (take (unat n) ln) = ln ! i # drop (Suc i) (take (unat n) ln)"
    using lt by (simp flip: Cons_nth_drop_Suc)
  show ?case
    by (subst suspend_loop.simps) (simp add: lt d Suc.hyps(1) [OF m Suc.prems])
qed

lemma resume_loop_from:
  "unat n \<le> length ln \<Longrightarrow>
   resume_loop ln n i w =
     w @ map Ev_resume (filter (\<lambda>l. 0 \<le> sint l) (drop i (take (unat n) ln)))"
proof (induction "unat n - i" arbitrary: i w)
  case 0
  then show ?case by (subst resume_loop.simps) simp
next
  case (Suc m)
  then have lt: "i < unat n" and m: "m = unat n - Suc i" by auto
  from lt Suc.prems have "i < length (take (unat n) ln)" by simp
  then have d: "drop i (take (unat n) ln) = ln ! i # drop (Suc i) (take (unat n) ln)"
    using lt by (simp flip: Cons_nth_drop_Suc)
  show ?case
    by (subst resume_loop.simps) (simp add: lt d Suc.hyps(1) [OF m Suc.prems])
qed

lemma suspend_resume_events:
  assumes "unat (nr priv) \<le> length (line priv)"
  shows "addi_pciserial_suspend_ports priv w =
           w @ map Ev_suspend (filter (\<lambda>l. 0 \<le> sint l) (take (unat (nr priv)) (line priv)))
             @ (case q_exit (quirk priv) of None \<Rightarrow> [] | Some u \<Rightarrow> [Ev_exit])"
    and "addi_pciserial_resume_ports priv w =
           w @ (case q_init (quirk priv) of None \<Rightarrow> [] | Some h \<Rightarrow> [Ev_init])
             @ map Ev_resume (filter (\<lambda>l. 0 \<le> sint l) (take (unat (nr priv)) (line priv)))"
  using assms
  by (simp_all add: addi_pciserial_suspend_ports_def addi_pciserial_resume_ports_def
      suspend_loop_from resume_loop_from split: option.splits)

text \<open>
  C7.  For a session with attached count \<open>nr\<close>, suspend calls
  \<^verbatim>\<open>serial8250_suspend_port\<close> for the handles at the indices below \<open>nr\<close> that are not
  negative, in index order, and nothing else, and then the \<^verbatim>\<open>exit\<close> hook of the
  quirk if it has one.  Resume first calls the \<^verbatim>\<open>init\<close> hook if there is one, and
  then, whatever the hook returned, \<^verbatim>\<open>serial8250_resume_port\<close> for the same handles in
  the same order.
\<close>

theorem suspend_resume_frame:
  assumes "unat (nr priv) \<le> length (line priv)"
  shows "addi_pciserial_suspend_ports priv w =
           w @ map Ev_suspend (filter (\<lambda>l. 0 \<le> sint l) (take (unat (nr priv)) (line priv)))
             @ (case q_exit (quirk priv) of None \<Rightarrow> [] | Some u \<Rightarrow> [Ev_exit]) \<and>
         addi_pciserial_resume_ports priv w =
           w @ (case q_init (quirk priv) of None \<Rightarrow> [] | Some h \<Rightarrow> [Ev_init])
             @ map Ev_resume (filter (\<lambda>l. 0 \<le> sint l) (take (unat (nr priv)) (line priv)))"
  using assms by (simp add: suspend_resume_events)

text \<open>
  A session with two attached ports and a third, unused slot, bound to a quirk whose
  \<^verbatim>\<open>init\<close> hook fails: both ports are suspended and then the \<^verbatim>\<open>exit\<close> hook runs;
  both ports are resumed after the failing hook.
\<close>

theorem suspend_resume_frame_witness:
  "unat (nr ex_session) \<le> length (line ex_session) \<and>
   addi_pciserial_suspend_ports ex_session [] = [Ev_suspend 3, Ev_suspend 4, Ev_exit] \<and>
   addi_pciserial_resume_ports ex_session [] = [Ev_init, Ev_resume 3, Ev_resume 4] \<and>
   sint (the (q_init (quirk ex_session)) [] (sp_dev ex_session)) < 0"
  using suspend_resume_frame [of ex_session "[]"]
  by (simp add: ex_session_def ex_quirk_init_fails_def ENODEV_def)

subsection \<open>Attach\<close>

lemma attach_loop_inv:
  assumes "attach_loop k q dev b n i ln uart w = (i', ln', uart', w')"
    and "length ln = nat (sint n)" and "\<forall>j<i. 0 \<le> sint (ln ! j)"
  shows "i \<le> i' \<and> (i' \<le> nat (sint n) \<or> i' = i) \<and> length ln' = length ln \<and>
         (\<forall>j<i'. 0 \<le> sint (ln' ! j))"
  using assms
proof (induction "nat (sint n) - i" arbitrary: i ln uart w)
  case 0
  then have "\<not> int i < sint n" by auto
  with 0 show ?case by (subst (asm) attach_loop.simps) auto
next
  case (Suc m)
  then have lt: "int i < sint n" and m: "m = nat (sint n) - Suc i" by auto
  obtain rc u1 w1 where s: "q_setup q k dev b uart (of_nat i) w = (rc, u1, w1)"
    by (cases "q_setup q k dev b uart (of_nat i) w") auto
  show ?case
  proof (cases "rc \<noteq> 0")
    case True
    with Suc.prems lt s show ?thesis
      by (subst (asm) attach_loop.simps) auto
  next
    case False
    note rc0 = this
    let ?l = "k_register k w1 u1"
    show ?thesis
    proof (cases "sint ?l < 0")
      case True
      with Suc.prems lt s rc0 show ?thesis
        by (subst (asm) attach_loop.simps) (auto simp: Let_def nth_list_update)
    next
      case False
      with Suc.prems(1) lt s rc0
      have r: "attach_loop k q dev b n (Suc i) (ln[i := ?l]) u1 (w1 @ [Ev_register u1]) =
                (i', ln', uart', w')"
        by (subst (asm) attach_loop.simps) (simp add: Let_def)
      have len: "length (ln[i := ?l]) = nat (sint n)" using Suc.prems(2) by simp
      have pos: "\<forall>j<Suc i. 0 \<le> sint ((ln[i := ?l]) ! j)"
        using Suc.prems(2,3) False lt by (auto simp: nth_list_update less_Suc_eq)
      from Suc.hyps(1) [OF m r len pos] lt show ?thesis by auto
    qed
  qed
qed

lemma unat_of_nat_count:
  assumes "i \<le> nat (sint (n::u32))"
  shows "unat (of_nat i :: u32) = i"
proof -
  have "sint n < 2 ^ 31" using sint_lt [of n] by simp
  with assms have "i < 2 ^ 32" by auto
  then show ?thesis by (simp add: unsigned_of_nat take_bit_nat_eq_self)
qed

lemma init_ports_session:
  assumes "addi_pciserial_init_ports k tbl dev tmp bp w = Some (Inr priv, w')"
  shows "unat (nr priv) \<le> length (line priv) \<and> (\<forall>i < unat (nr priv). 0 \<le> sint (line priv ! i))"
proof -
  from assms obtain b q n uart w1 i ln uart' where
    a: "attach_loop k q dev b n 0 (replicate (nat (sint n)) 0) uart w1 = (i, ln, uart', w')"
    and p: "priv = \<lparr>sp_dev = dev, nr = of_nat i, quirk = q, board = bp, line = ln\<rparr>"
    by (auto simp: addi_pciserial_init_ports_def
        split: option.splits prod.splits if_splits)
  from attach_loop_inv [OF a]
  have "i \<le> nat (sint n)" and l: "length ln = nat (sint n)" and
    pos: "\<forall>j<i. 0 \<le> sint (ln ! j)"
    by auto
  then have "unat (of_nat i :: u32) = i" by (simp add: unat_of_nat_count)
  with p l pos \<open>i \<le> nat (sint n)\<close> show ?thesis by simp
qed

lemma filter_take_all:
  assumes "n \<le> length xs" and "\<forall>i<n. P (xs ! i)"
  shows "filter P (take n xs) = take n xs"
proof -
  have "\<forall>x \<in> set (take n xs). P x"
    using assms by (auto simp: in_set_conv_nth)
  then show ?thesis by simp
qed

lemma init_ports_board:
  "addi_pciserial_init_ports k tbl dev tmp bp w = Some (Inr priv, w') \<Longrightarrow>
     board priv = bp \<and> sp_dev priv = dev \<and> find_quirk tbl dev = Some (quirk priv)"
  by (auto simp: addi_pciserial_init_ports_def
      split: option.splits prod.splits if_splits)

lemma init_ports_error_events:
  assumes "addi_pciserial_init_ports k tbl dev tmp bp w = Some (Inl e, w1)"
  shows "\<exists>ev. w1 = w @ ev \<and> set ev \<subseteq> {Ev_init, Ev_exit}"
proof -
  from assms consider "w1 = w" | "w1 = w @ [Ev_init]" | "w1 = w @ [Ev_exit]"
    | "w1 = w @ [Ev_init, Ev_exit]"
    by (auto simp: addi_pciserial_init_ports_def run_init_def
        split: option.splits prod.splits if_splits)
  then show ?thesis
  proof cases
    case 1 then show ?thesis by (intro exI [of _ "[]"]) simp
  next
    case 2 then show ?thesis by (intro exI [of _ "[Ev_init]"]) simp
  next
    case 3 then show ?thesis by (intro exI [of _ "[Ev_exit]"]) simp
  next
    case 4 then show ?thesis by (intro exI [of _ "[Ev_init, Ev_exit]"]) simp
  qed
qed

text \<open>
  The loop at index \<open>i\<close>, in the state that the run has reached there, is the loop at any
  later index \<open>i + d\<close> up to the nominal count, in the state reached there, when the
  indices between attach.
\<close>

lemma attach_loop_skip:
  assumes "\<forall>j. i \<le> j \<and> j < i + d \<longrightarrow> index_attaches k q dev b s j"
    and "int (i + d) \<le> sint n"
  shows "(case attach_state k q dev b s i of
            (ln, uart, w) \<Rightarrow> attach_loop k q dev b n i ln uart w) =
         (case attach_state k q dev b s (i + d) of
            (ln, uart, w) \<Rightarrow> attach_loop k q dev b n (i + d) ln uart w)"
  using assms
proof (induction d)
  case 0
  show ?case by simp
next
  case (Suc d)
  let ?j = "i + d"
  obtain ln uart w where st: "attach_state k q dev b s ?j = (ln, uart, w)"
    by (cases "attach_state k q dev b s ?j") auto
  obtain rc u w' where su: "q_setup q k dev b uart (of_nat ?j) w = (rc, u, w')"
    by (cases "q_setup q k dev b uart (of_nat ?j) w") auto
  from Suc.prems(1) have "index_attaches k q dev b s ?j" by simp
  with st su have ok: "rc = 0" "0 \<le> sint (k_register k w' u)"
    by (simp_all add: index_attaches_def attach_setup_at_def)
  from Suc.prems(2) have lt: "int ?j < sint n" by simp
  have step: "attach_loop k q dev b n ?j ln uart w =
      attach_loop k q dev b n (Suc ?j) (ln[?j := k_register k w' u]) u (w' @ [Ev_register u])"
    using lt su ok by (subst attach_loop.simps) (simp add: Let_def)
  have nx: "attach_state k q dev b s (Suc ?j) =
      (ln[?j := k_register k w' u], u, w' @ [Ev_register u])"
    using st su by simp
  have "(case attach_state k q dev b s i of
            (ln, uart, w) \<Rightarrow> attach_loop k q dev b n i ln uart w) =
        (case attach_state k q dev b s ?j of
            (ln, uart, w) \<Rightarrow> attach_loop k q dev b n ?j ln uart w)"
    using Suc.prems by (intro Suc.IH) auto
  also have "\<dots> = attach_loop k q dev b n (Suc ?j) (ln[?j := k_register k w' u]) u
      (w' @ [Ev_register u])"
    using st step by simp
  also have "\<dots> = (case attach_state k q dev b s (i + Suc d) of
            (ln, uart, w) \<Rightarrow> attach_loop k q dev b n (i + Suc d) ln uart w)"
    using nx by simp
  finally show ?case .
qed

text \<open>The run from index 0 ends at the first index that does not attach.\<close>

lemma attach_loop_run:
  assumes "\<forall>j<kk. index_attaches k q dev b (ln0, uart0, w0) j"
  shows "int kk < sint n \<Longrightarrow>
           attach_setup_at k q dev b (ln0, uart0, w0) kk = (rc, u, w') \<Longrightarrow> rc \<noteq> 0 \<Longrightarrow>
           attach_loop k q dev b n 0 ln0 uart0 w0 =
             (kk, fst (attach_state k q dev b (ln0, uart0, w0) kk), u, w')"
    and "int kk < sint n \<Longrightarrow>
           attach_setup_at k q dev b (ln0, uart0, w0) kk = (0, u, w') \<Longrightarrow>
           sint (k_register k w' u) < 0 \<Longrightarrow>
           attach_loop k q dev b n 0 ln0 uart0 w0 =
             (kk, (fst (attach_state k q dev b (ln0, uart0, w0) kk))[kk := k_register k w' u],
              u, w' @ [Ev_register u])"
    and "int kk = sint n \<Longrightarrow>
           attach_loop k q dev b n 0 ln0 uart0 w0 =
             (kk, attach_state k q dev b (ln0, uart0, w0) kk)"
proof -
  let ?s = "(ln0, uart0, w0)"
  obtain ln uart w where st: "attach_state k q dev b ?s kk = (ln, uart, w)"
    by (cases "attach_state k q dev b ?s kk") auto
  have skip: "attach_loop k q dev b n 0 ln0 uart0 w0 = attach_loop k q dev b n kk ln uart w"
    if "int kk \<le> sint n"
    using attach_loop_skip [of 0 kk k q dev b ?s n] assms that st by simp
  {
    assume lt: "int kk < sint n" and su: "attach_setup_at k q dev b ?s kk = (rc, u, w')"
      and rc: "rc \<noteq> 0"
    from su st have "q_setup q k dev b uart (of_nat kk) w = (rc, u, w')"
      by (simp add: attach_setup_at_def)
    with lt rc have "attach_loop k q dev b n kk ln uart w = (kk, ln, u, w')"
      by (subst attach_loop.simps) simp
    with skip lt st show "attach_loop k q dev b n 0 ln0 uart0 w0 =
        (kk, fst (attach_state k q dev b ?s kk), u, w')" by simp
  }
  {
    assume lt: "int kk < sint n" and su: "attach_setup_at k q dev b ?s kk = (0, u, w')"
      and neg: "sint (k_register k w' u) < 0"
    from su st have "q_setup q k dev b uart (of_nat kk) w = (0, u, w')"
      by (simp add: attach_setup_at_def)
    with lt neg have "attach_loop k q dev b n kk ln uart w =
        (kk, ln[kk := k_register k w' u], u, w' @ [Ev_register u])"
      by (subst attach_loop.simps) (simp add: Let_def)
    with skip lt st show "attach_loop k q dev b n 0 ln0 uart0 w0 =
        (kk, (fst (attach_state k q dev b ?s kk))[kk := k_register k w' u], u,
         w' @ [Ev_register u])" by simp
  }
  {
    assume eq: "int kk = sint n"
    then have "attach_loop k q dev b n kk ln uart w = (kk, ln, uart, w)"
      by (subst attach_loop.simps) simp
    with skip eq st show "attach_loop k q dev b n 0 ln0 uart0 w0 =
        (kk, attach_state k q dev b ?s kk)" by simp
  }
qed

lemma replicate_2: "replicate 2 x = [x, x]"
  by (simp add: numeral_2_eq_2)

lemma replicate_8: "replicate 8 x = [x, x, x, x, x, x, x, x]"
  by (simp add: eval_nat_numeral)


lemma replicate_4: "replicate 4 x = [x, x, x, x]"
  by (simp add: eval_nat_numeral)

lemmas run_defs = addi_pciserial_init_ports_def run_init_def nr_ports_of_def
  uart_template_def pci_serial_quirks_def quirk_id_matches_def
  PCI_ANY_ID_def PCI_VENDOR_ID_AMCC_def PCI_DEVICE_ID_AMCC_ADDIDATA_APCI7800_def
  attach_loop.simps pci_default_setup_def setup_port_def get_pci_irq_def
  UPF_SKIP_TEST_def UPF_SHARE_IRQ_def UPF_BOOT_AUTOCONF_def Let_def
  word_le_nat_alt replicate_2 replicate_4 replicate_8

lemma ex_find:
  "find_quirk pci_serial_quirks ex_dev_io = Some ex_terminator"
  "find_quirk pci_serial_quirks ex_dev_io16 = Some ex_terminator"
  "find_quirk pci_serial_quirks ex_dev_none = Some ex_terminator"
  "q_setup ex_terminator = pci_default_setup"
  "q_init ex_terminator = None" "q_exit ex_terminator = None" "q_probe ex_terminator = None"
  by (simp_all add: ex_terminator_def pci_serial_quirks_def quirk_id_matches_def ex_defs
      PCI_ANY_ID_def PCI_VENDOR_ID_AMCC_def PCI_DEVICE_ID_AMCC_ADDIDATA_APCI7800_def)

lemma ex_board_at:
  "board_at tmp (Board_entry pbn_b0_2_115200) = Some ex_board_2"
  "board_at (Some b) Board_tmp = Some b"
  "board_at None Board_tmp = None"
  by (simp_all add: board_at_def pbn_b0_2_115200_def pci_boards_def ex_board_2_def const_defs)

lemma ex_template:
  "uart_template ex_dev_io ex_board_2 = ex_uart 0"
  "uart_template ex_dev_io16 ex_board_cap = ex_uart 0"
  "uart_template ex_dev_none ex_board_cap = ex_uart 0"
  "uart_template ex_dev_io ex_board_guessed = ex_uart 0"
  by (simp_all add: uart_template_def get_pci_irq_def ex_uart_def ex_board_2_def
      ex_board_guessed_def UPF_SKIP_TEST_def UPF_SHARE_IRQ_def UPF_BOOT_AUTOCONF_def
      ex_defs const_defs)

text \<open>
  The default layout on the example devices: the two-port board on the region of 64
  bytes resolves indices 0 and 1; the capacity-capped board on the region of 16 bytes
  resolves indices 0 and 1 and has no index 2, and on the device with no region it has
  no index 0.
\<close>

lemma ex_setup:
  "pci_default_setup k ex_dev_io ex_board_2 (ex_uart x) 0 w = (0, ex_uart 0xd000, w)"
  "pci_default_setup k ex_dev_io ex_board_2 (ex_uart x) 1 w = (0, ex_uart 0xd008, w)"
  "pci_default_setup k ex_dev_io16 ex_board_cap (ex_uart x) 0 w = (0, ex_uart 0xd000, w)"
  "pci_default_setup k ex_dev_io16 ex_board_cap (ex_uart x) 1 w = (0, ex_uart 0xd008, w)"
  "pci_default_setup k ex_dev_io16 ex_board_cap (ex_uart x) 2 w = (1, ex_uart x, w)"
  "pci_default_setup k ex_dev_none ex_board_cap (ex_uart x) 0 w = (1, ex_uart x, w)"
  by (simp_all add: pci_default_setup_def setup_port_def ex_uart_def ex_board_2_def
      ex_defs const_defs word_le_nat_alt)

text \<open>
  C3 (as amended).  When the \<^verbatim>\<open>init\<close> hook of the matched quirk returns a negative
  value during attach, \<^verbatim>\<open>addi_pciserial_init_ports\<close> returns that value as its error
  at once: the only call made is the hook itself, no session is allocated, no port is
  set up or registered, and the \<^verbatim>\<open>exit\<close> hook is not invoked.  The \<^verbatim>\<open>exit\<close> hook is
  invoked on the other error path, when the hook has succeeded and the allocation of
  the session fails.  Both hold when the board pointer that attach is given points to a
  board: attach reads \<^verbatim>\<open>board->num_ports\<close> before it calls the hook, and when the
  pointer points to nothing the attach has no defined result.
\<close>

theorem init_failure_aborts:
  "(board_at tmp bp = Some b \<and>
    find_quirk tbl dev = Some q \<and> q_init q = Some h \<and> sint (h w dev) < 0 \<longrightarrow>
      addi_pciserial_init_ports k tbl dev tmp bp w = Some (Inl (h w dev), w @ [Ev_init])) \<and>
   (board_at tmp bp = Some b \<and>
    find_quirk tbl dev = Some q \<and> q_init q = Some h \<and> 0 \<le> sint (h w dev) \<and>
    \<not> k_kzalloc k (w @ [Ev_init]) (nr_ports_of b (h w dev)) \<longrightarrow>
      addi_pciserial_init_ports k tbl dev tmp bp w =
        Some (Inl (- ENOMEM),
              w @ [Ev_init] @ (case q_exit q of None \<Rightarrow> [] | Some u \<Rightarrow> [Ev_exit]))) \<and>
   (board_at tmp bp = None \<longrightarrow> addi_pciserial_init_ports k tbl dev tmp bp w = None)"
  by (auto simp: addi_pciserial_init_ports_def run_init_def nr_ports_of_def
      split: option.splits)

text \<open>
  A quirk with all hooks whose \<^verbatim>\<open>init\<close> fails with \<^verbatim>\<open>-ENODEV\<close>: the attach returns
  \<^verbatim>\<open>-ENODEV\<close> after the single event of the hook.  The same quirk with a succeeding
  \<^verbatim>\<open>init\<close> on a kernel that refuses the allocation: \<^verbatim>\<open>-ENOMEM\<close>, after \<^verbatim>\<open>init\<close>
  and \<^verbatim>\<open>exit\<close>.  Given the address of \<^verbatim>\<open>tmp\<close> when no \<^verbatim>\<open>tmp\<close> exists, the
  attach has no defined result.
\<close>

theorem init_failure_aborts_witness:
  "board_at None (Board_entry pbn_b0_2_115200) = Some ex_board_2 \<and>
   find_quirk [ex_quirk_init_fails] ex_dev_io = Some ex_quirk_init_fails \<and>
   q_init ex_quirk_init_fails = Some (\<lambda>w dev. - ENODEV) \<and>
   q_exit ex_quirk_init_fails = Some () \<and>
   sint (- ENODEV) < 0 \<and>
   addi_pciserial_init_ports ex_kernel [ex_quirk_init_fails] ex_dev_io None
     (Board_entry pbn_b0_2_115200) [] = Some (Inl (- ENODEV), [Ev_init]) \<and>
   find_quirk [ex_quirk_init_ok] ex_dev_io = Some ex_quirk_init_ok \<and>
   q_init ex_quirk_init_ok = Some (\<lambda>w dev. 0) \<and>
   \<not> k_kzalloc ex_kernel_no_mem [Ev_init] (nr_ports_of ex_board_2 0) \<and>
   addi_pciserial_init_ports ex_kernel_no_mem [ex_quirk_init_ok] ex_dev_io None
     (Board_entry pbn_b0_2_115200) [] = Some (Inl (- ENOMEM), [Ev_init, Ev_exit]) \<and>
   board_at None Board_tmp = None \<and>
   addi_pciserial_init_ports ex_kernel [ex_quirk_init_fails] ex_dev_io None Board_tmp [] = None"
  using init_failure_aborts [of None "Board_entry pbn_b0_2_115200" ex_board_2
      "[ex_quirk_init_fails]" ex_dev_io ex_quirk_init_fails
      "\<lambda>w dev. - ENODEV" "[]" ex_kernel]
    init_failure_aborts [of None "Board_entry pbn_b0_2_115200" ex_board_2
      "[ex_quirk_init_ok]" ex_dev_io ex_quirk_init_ok
      "\<lambda>w dev. 0" "[]" ex_kernel_no_mem]
    init_failure_aborts [of None Board_tmp ex_board_2
      "[ex_quirk_init_fails]" ex_dev_io ex_quirk_init_fails
      "\<lambda>w dev. - ENODEV" "[]" ex_kernel]
  by (simp add: ex_board_at quirk_id_matches_def ex_quirk_init_fails_def ex_quirk_init_ok_def
      ex_defs ENODEV_def)

text \<open>
  C3 as stated fails: the quirk has an \<^verbatim>\<open>exit\<close> hook, its \<^verbatim>\<open>init\<close> hook returns an
  error during attach, and the attach returns without having invoked \<^verbatim>\<open>exit\<close>.
\<close>

theorem init_failure_exit_counterexample:
  "find_quirk [ex_quirk_init_fails] ex_dev_io = Some ex_quirk_init_fails \<and>
   sint (the (q_init ex_quirk_init_fails) [] ex_dev_io) < 0 \<and>
   q_exit ex_quirk_init_fails = Some () \<and>
   addi_pciserial_init_ports ex_kernel [ex_quirk_init_fails] ex_dev_io None
     (Board_entry pbn_b0_2_115200) [] = Some (Inl (- ENODEV), [Ev_init]) \<and>
   Ev_exit \<notin> set [Ev_init]"
  by (simp add: addi_pciserial_init_ports_def ex_board_at run_init_def quirk_id_matches_def
      ex_quirk_init_fails_def ENODEV_def)

text \<open>
  C4 (as amended).  Take an attach whose board pointer points to a board, whose
  \<^verbatim>\<open>init\<close> hook, if any, has not failed and whose session is allocated, and let the
  indices below \<open>kk\<close> each resolve and register.  If \<open>kk\<close> is below the nominal count
  and \<^verbatim>\<open>setup\<close> returns non-zero there ("not present" or an error), the attach returns
  the session with attached count \<open>kk\<close>: the handles and events are those of the
  indices below \<open>kk\<close> and of that one call of \<^verbatim>\<open>setup\<close>, nothing is registered at
  \<open>kk\<close> and no later index is attempted.  If the registration at \<open>kk\<close> returns a
  negative handle, the attach returns the session with attached count \<open>kk\<close> after that
  one registration.  If \<open>kk\<close> is the nominal count, the session has all its ports.  In
  each case the count is stored exactly, and this holds for \<open>kk = 0\<close> as for any other
  index.  Whenever attach returns a session, whatever its count, the probe stores it and
  returns 0.
\<close>

theorem attach_truncation:
  assumes "board_at tmp bp = Some b" and "find_quirk tbl dev = Some q"
    and "run_init q dev w = (rc0, w1)" and "0 \<le> sint rc0"
    and "k_kzalloc k w1 (nr_ports_of b rc0)"
    and "s = (replicate (nat (sint (nr_ports_of b rc0))) 0, uart_template dev b, w1)"
    and "\<forall>j<kk. index_attaches k q dev b s j"
  shows
   "(int kk < sint (nr_ports_of b rc0) \<and> attach_setup_at k q dev b s kk = (rc, u, w') \<and>
     rc \<noteq> 0 \<longrightarrow>
       addi_pciserial_init_ports k tbl dev tmp bp w =
         Some (Inr \<lparr>sp_dev = dev, nr = of_nat kk, quirk = q, board = bp,
                     line = fst (attach_state k q dev b s kk)\<rparr>, w')) \<and>
    (int kk < sint (nr_ports_of b rc0) \<and> attach_setup_at k q dev b s kk = (0, u, w') \<and>
     sint (k_register k w' u) < 0 \<longrightarrow>
       addi_pciserial_init_ports k tbl dev tmp bp w =
         Some (Inr \<lparr>sp_dev = dev, nr = of_nat kk, quirk = q, board = bp,
                     line = (fst (attach_state k q dev b s kk))[kk := k_register k w' u]\<rparr>,
               w' @ [Ev_register u])) \<and>
    (int kk = sint (nr_ports_of b rc0) \<longrightarrow>
       addi_pciserial_init_ports k tbl dev tmp bp w =
         Some (Inr \<lparr>sp_dev = dev, nr = of_nat kk, quirk = q, board = bp,
                     line = fst (attach_state k q dev b s kk)\<rparr>,
               snd (snd (attach_state k q dev b s kk)))) \<and>
    (int kk \<le> sint (nr_ports_of b rc0) \<longrightarrow> unat (of_nat kk :: u32) = kk) \<and>
    (run_probe q dev w0 = (0, wp) \<and> driver_data < length pci_boards \<and>
     k_enable_device k wp = 0 \<and>
     resolve_board dev driver_data (wp @ [Ev_enable_device, Ev_save_state]) = (0, bp, tb, w) \<and>
     tmp = Some tb \<and>
     addi_pciserial_init_ports k tbl dev tmp bp w = Some (Inr priv, w4) \<longrightarrow>
       pciserial_init_one k tbl dev driver_data dd w0 = Some (0, Some priv, tmp, w4))"
proof -
  let ?n = "nr_ports_of b rc0"
  let ?ln0 = "replicate (nat (sint ?n)) (0::u32)"
  let ?u0 = "uart_template dev b"
  have s: "s = (?ln0, ?u0, w1)" by (rule assms(6))
  have ok: "\<forall>j<kk. index_attaches k q dev b (?ln0, ?u0, w1) j"
    using assms(7) s by simp
  have ip: "addi_pciserial_init_ports k tbl dev tmp bp w =
      Some (Inr \<lparr>sp_dev = dev, nr = of_nat i, quirk = q, board = bp, line = ln\<rparr>, w2)"
    if "attach_loop k q dev b ?n 0 ?ln0 ?u0 w1 = (i, ln, uart', w2)" for i ln uart' w2
    using that assms(1-5) by (simp add: addi_pciserial_init_ports_def)
  have A: "addi_pciserial_init_ports k tbl dev tmp bp w =
         Some (Inr \<lparr>sp_dev = dev, nr = of_nat kk, quirk = q, board = bp,
                     line = fst (attach_state k q dev b s kk)\<rparr>, w')"
    if "int kk < sint ?n \<and> attach_setup_at k q dev b s kk = (rc, u, w') \<and> rc \<noteq> 0"
    using that attach_loop_run(1) [OF ok, of ?n rc u w'] by (intro ip) (simp add: s)
  have B: "addi_pciserial_init_ports k tbl dev tmp bp w =
         Some (Inr \<lparr>sp_dev = dev, nr = of_nat kk, quirk = q, board = bp,
                     line = (fst (attach_state k q dev b s kk))[kk := k_register k w' u]\<rparr>,
               w' @ [Ev_register u])"
    if "int kk < sint ?n \<and> attach_setup_at k q dev b s kk = (0, u, w') \<and>
        sint (k_register k w' u) < 0"
    using that attach_loop_run(2) [OF ok, of ?n u w'] by (intro ip) (simp add: s)
  have C: "addi_pciserial_init_ports k tbl dev tmp bp w =
         Some (Inr \<lparr>sp_dev = dev, nr = of_nat kk, quirk = q, board = bp,
                     line = fst (attach_state k q dev b s kk)\<rparr>,
               snd (snd (attach_state k q dev b s kk)))"
    if "int kk = sint ?n"
  proof -
    obtain ln uart w2 where st: "attach_state k q dev b s kk = (ln, uart, w2)"
      by (cases "attach_state k q dev b s kk") auto
    from attach_loop_run(3) [OF ok that] st
    have "attach_loop k q dev b ?n 0 ?ln0 ?u0 w1 = (kk, ln, uart, w2)" by (simp add: s)
    from ip [OF this] st show ?thesis by simp
  qed
  have D: "unat (of_nat kk :: u32) = kk" if "int kk \<le> sint ?n"
    using that by (intro unat_of_nat_count [of kk ?n]) simp
  have E: "pciserial_init_one k tbl dev driver_data dd w0 = Some (0, Some priv, tmp, w4)"
    if "run_probe q dev w0 = (0, wp) \<and> driver_data < length pci_boards \<and>
     k_enable_device k wp = 0 \<and>
     resolve_board dev driver_data (wp @ [Ev_enable_device, Ev_save_state]) = (0, bp, tb, w) \<and>
     tmp = Some tb \<and>
     addi_pciserial_init_ports k tbl dev tmp bp w = Some (Inr priv, w4)"
    using that assms(2) by (auto simp: pciserial_init_one_def)
  from A B C D E show ?thesis by blast
qed

lemma ex_nr:
  "nr_ports_of ex_board_cap 0 = 4" "nr_ports_of ex_board_2 0 = 2"
  "nr_ports_of ex_board_guessed 0 = 8"
  by (simp_all add: nr_ports_of_def ex_board_cap_def ex_board_2_def ex_board_guessed_def)

lemma ex_run_init: "run_init ex_terminator dev w = (0, w)"
  by (simp add: run_init_def ex_find)

lemma ex_kzalloc:
  "k_kzalloc ex_kernel w n" "k_kzalloc ex_kernel_reg_once w n" "k_kzalloc ex_kernel_no_reg w n"
  "\<not> k_kzalloc ex_kernel_no_mem w n"
  by (simp_all add: ex_defs)

lemma ex_register:
  "k_register ex_kernel w p = of_nat (length (registrations w))"
  "k_register ex_kernel_reg_once w p = (if registrations w = [] then 0 else - 16)"
  "k_register ex_kernel_no_reg w p = - 16"
  by (simp_all add: ex_defs)

text \<open>The states of the example runs of the attach loop.\<close>

lemma ex_state_cap:
  "attach_state ex_kernel ex_terminator ex_dev_io16 ex_board_cap ([0, 0, 0, 0], ex_uart 0, [])
     (Suc 0) = ([0, 0, 0, 0], ex_uart 0xd000, [Ev_register (ex_uart 0xd000)])"
  "attach_state ex_kernel ex_terminator ex_dev_io16 ex_board_cap ([0, 0, 0, 0], ex_uart 0, [])
     2 = ([0, 1, 0, 0], ex_uart 0xd008,
          [Ev_register (ex_uart 0xd000), Ev_register (ex_uart 0xd008)])"
  by (simp_all add: numeral_2_eq_2 ex_find ex_setup ex_register)

lemma ex_state_once:
  "attach_state ex_kernel_reg_once ex_terminator ex_dev_io ex_board_2 ([0, 0], ex_uart 0, [])
     (Suc 0) = ([0, 0], ex_uart 0xd000, [Ev_register (ex_uart 0xd000)])"
  by (simp_all add: ex_find ex_setup ex_register)

lemma ex_state_2:
  "attach_state ex_kernel ex_terminator ex_dev_io ex_board_2 ([0, 0], ex_uart 0, [])
     (Suc 0) = ([0, 0], ex_uart 0xd000, [Ev_register (ex_uart 0xd000)])"
  "attach_state ex_kernel ex_terminator ex_dev_io ex_board_2 ([0, 0], ex_uart 0, [])
     2 = ([0, 1], ex_uart 0xd008,
          [Ev_register (ex_uart 0xd000), Ev_register (ex_uart 0xd008)])"
  by (simp_all add: numeral_2_eq_2 ex_find ex_setup ex_register)

lemma ex_attaches:
  "\<forall>j<2. index_attaches ex_kernel ex_terminator ex_dev_io16 ex_board_cap
            ([0, 0, 0, 0], ex_uart 0, []) j"
  "\<forall>j<Suc 0. index_attaches ex_kernel_reg_once ex_terminator ex_dev_io ex_board_2
            ([0, 0], ex_uart 0, []) j"
  "\<forall>j<2. index_attaches ex_kernel ex_terminator ex_dev_io ex_board_2
            ([0, 0], ex_uart 0, []) j"
  by (simp_all add: numeral_2_eq_2 All_less_Suc index_attaches_def attach_setup_at_def
      ex_find ex_setup ex_register)

lemma ex_attaches_at:
  "index_attaches ex_kernel ex_terminator ex_dev_io16 ex_board_cap
     ([0, 0, 0, 0], ex_uart 0, []) 0"
  "index_attaches ex_kernel ex_terminator ex_dev_io16 ex_board_cap
     ([0, 0, 0, 0], ex_uart 0, []) 1"
  "index_attaches ex_kernel_reg_once ex_terminator ex_dev_io ex_board_2
     ([0, 0], ex_uart 0, []) 0"
  using ex_attaches(1,2) by (simp_all add: numeral_2_eq_2 All_less_Suc)

lemma ex_setup_at:
  "attach_setup_at ex_kernel ex_terminator ex_dev_io16 ex_board_cap
     ([0, 0, 0, 0], ex_uart 0, []) 2 =
     (1, ex_uart 0xd008, [Ev_register (ex_uart 0xd000), Ev_register (ex_uart 0xd008)])"
  "attach_setup_at ex_kernel_reg_once ex_terminator ex_dev_io ex_board_2
     ([0, 0], ex_uart 0, []) (Suc 0) =
     (0, ex_uart 0xd008, [Ev_register (ex_uart 0xd000)])"
  "attach_setup_at ex_kernel_no_reg ex_terminator ex_dev_io ex_board_2
     ([0, 0], ex_uart 0, w) 0 = (0, ex_uart 0xd000, w)"
  by (simp_all add: attach_setup_at_def ex_state_cap ex_state_once ex_find ex_setup)

text \<open>The heuristic and the resolution of the board on the example device.\<close>

lemma ex_guess:
  "serial_pci_guess_board ex_dev_io (pci_boards ! pbn_default) = (0, ex_board_guessed)"
  by (simp add: serial_pci_guess_board_def serial_pci_is_class_communication_def
      count_regions.simps class_defs pci_boards_def pbn_default_def ex_board_guessed_def
      ex_defs const_defs)

lemma ex_resolve:
  "resolve_board ex_dev_io pbn_default w = (0, Board_tmp, ex_board_guessed, w)"
  "resolve_board ex_dev_io pbn_b0_2_115200 w =
     (0, Board_entry pbn_b0_2_115200, ex_board_guessed, w)"
proof -
  show "resolve_board ex_dev_io pbn_default w = (0, Board_tmp, ex_board_guessed, w)"
    by (simp add: resolve_board_def ex_guess)
  have m: "\<not> serial_pci_matches (pci_boards ! pbn_b0_2_115200) ex_board_guessed"
    by (simp add: serial_pci_matches_def pci_boards_def pbn_b0_2_115200_def
        ex_board_guessed_def)
  have d: "pbn_b0_2_115200 \<noteq> pbn_default"
    by (simp add: pbn_b0_2_115200_def pbn_default_def)
  show "resolve_board ex_dev_io pbn_b0_2_115200 w =
     (0, Board_entry pbn_b0_2_115200, ex_board_guessed, w)"
    by (simp add: resolve_board_def ex_guess m d)
qed

lemma ex_probe_steps:
  "run_probe ex_terminator dev w = (0, w)"
  "pbn_default < length pci_boards" "pbn_b0_2_115200 < length pci_boards"
  "k_enable_device ex_kernel w = 0" "k_enable_device ex_kernel_no_reg w = 0"
  by (simp_all add: run_probe_def ex_find pci_boards_def pbn_default_def
      pbn_b0_2_115200_def ex_defs)

text \<open>
  The two-port board of the catalog on the device with one I/O region of 64 bytes.  On
  the region of 16 bytes the capacity-capped board of four nominal ports has no index
  2: the session is committed with two ports.  On a kernel that refuses every
  registration after the first, the two-port board is committed with one port, after
  two registrations.  On the kernel that refuses none, it is committed with its two
  ports.  On a kernel that refuses every registration, the session has no port and the
  probe returns 0 with that session as the driver data.
\<close>

theorem attach_truncation_witness:
  "index_attaches ex_kernel ex_terminator ex_dev_io16 ex_board_cap
     ([0, 0, 0, 0], ex_uart 0, []) 0 \<and>
   index_attaches ex_kernel ex_terminator ex_dev_io16 ex_board_cap
     ([0, 0, 0, 0], ex_uart 0, []) 1 \<and>
   attach_setup_at ex_kernel ex_terminator ex_dev_io16 ex_board_cap
     ([0, 0, 0, 0], ex_uart 0, []) 2 =
     (1, ex_uart 0xd008, [Ev_register (ex_uart 0xd000), Ev_register (ex_uart 0xd008)]) \<and>
   addi_pciserial_init_ports ex_kernel pci_serial_quirks ex_dev_io16 (Some ex_board_cap)
     Board_tmp [] =
     Some (Inr \<lparr>sp_dev = ex_dev_io16, nr = 2, quirk = ex_terminator, board = Board_tmp,
                 line = [0, 1, 0, 0]\<rparr>,
           [Ev_register (ex_uart 0xd000), Ev_register (ex_uart 0xd008)]) \<and>
   index_attaches ex_kernel_reg_once ex_terminator ex_dev_io ex_board_2
     ([0, 0], ex_uart 0, []) 0 \<and>
   attach_setup_at ex_kernel_reg_once ex_terminator ex_dev_io ex_board_2
     ([0, 0], ex_uart 0, []) (Suc 0) = (0, ex_uart 0xd008, [Ev_register (ex_uart 0xd000)]) \<and>
   sint (k_register ex_kernel_reg_once [Ev_register (ex_uart 0xd000)] (ex_uart 0xd008)) < 0 \<and>
   addi_pciserial_init_ports ex_kernel_reg_once pci_serial_quirks ex_dev_io None
     (Board_entry pbn_b0_2_115200) [] =
     Some (Inr \<lparr>sp_dev = ex_dev_io, nr = 1, quirk = ex_terminator,
                 board = Board_entry pbn_b0_2_115200, line = [0, - 16]\<rparr>,
           [Ev_register (ex_uart 0xd000), Ev_register (ex_uart 0xd008)]) \<and>
   addi_pciserial_init_ports ex_kernel pci_serial_quirks ex_dev_io None
     (Board_entry pbn_b0_2_115200) [] =
     Some (Inr \<lparr>sp_dev = ex_dev_io, nr = 2, quirk = ex_terminator,
                 board = Board_entry pbn_b0_2_115200, line = [0, 1]\<rparr>,
           [Ev_register (ex_uart 0xd000), Ev_register (ex_uart 0xd008)]) \<and>
   unat (of_nat 2 :: u32) = 2 \<and>
   sint (k_register ex_kernel_no_reg [Ev_enable_device, Ev_save_state] (ex_uart 0xd000)) < 0 \<and>
   addi_pciserial_init_ports ex_kernel_no_reg pci_serial_quirks ex_dev_io
     (Some ex_board_guessed) (Board_entry pbn_b0_2_115200) [Ev_enable_device, Ev_save_state] =
     Some (Inr \<lparr>sp_dev = ex_dev_io, nr = 0, quirk = ex_terminator,
                 board = Board_entry pbn_b0_2_115200, line = [- 16, 0]\<rparr>,
           [Ev_enable_device, Ev_save_state, Ev_register (ex_uart 0xd000)]) \<and>
   pciserial_init_one ex_kernel_no_reg pci_serial_quirks ex_dev_io pbn_b0_2_115200 None [] =
     Some (0, Some \<lparr>sp_dev = ex_dev_io, nr = 0, quirk = ex_terminator,
                     board = Board_entry pbn_b0_2_115200, line = [- 16, 0]\<rparr>,
           Some ex_board_guessed,
           [Ev_enable_device, Ev_save_state, Ev_register (ex_uart 0xd000)])"
proof -
  let ?w2 = "[Ev_register (ex_uart 0xd000), Ev_register (ex_uart 0xd008)]"
  let ?w0 = "[Ev_enable_device, Ev_save_state]"
  let ?p0 = "\<lparr>sp_dev = ex_dev_io, nr = 0, quirk = ex_terminator,
              board = Board_entry pbn_b0_2_115200, line = [- 16, (0::u32)]\<rparr>"
  have s4: "([0, 0, 0, 0], ex_uart 0, []) =
      (replicate (nat (sint (nr_ports_of ex_board_cap 0))) (0::u32),
       uart_template ex_dev_io16 ex_board_cap, ([]::event list))"
    by (simp add: ex_nr replicate_4 ex_template)
  have s2: "([0, 0], ex_uart 0, w) =
      (replicate (nat (sint (nr_ports_of ex_board_2 0))) (0::u32),
       uart_template ex_dev_io ex_board_2, w)" for w :: "event list"
    by (simp add: ex_nr replicate_2 ex_template)
  have a: "addi_pciserial_init_ports ex_kernel pci_serial_quirks ex_dev_io16
     (Some ex_board_cap) Board_tmp [] =
     Some (Inr \<lparr>sp_dev = ex_dev_io16, nr = 2, quirk = ex_terminator, board = Board_tmp,
                 line = [0, 1, 0, 0]\<rparr>, ?w2)"
    using attach_truncation [where tmp = "Some ex_board_cap" and bp = Board_tmp
        and b = ex_board_cap and tbl = pci_serial_quirks and dev = ex_dev_io16
        and q = ex_terminator and w = "[]" and ?rc0.0 = 0 and ?w1.0 = "[]" and k = ex_kernel
        and s = "([0, 0, 0, 0], ex_uart 0, [])" and kk = 2 and rc = 1
        and u = "ex_uart 0xd008" and w' = ?w2,
        OF ex_board_at(2) ex_find(2) ex_run_init _ ex_kzalloc(1) s4 ex_attaches(1)]
    by (simp add: ex_nr ex_setup_at ex_state_cap)
  have r: "sint (k_register ex_kernel_reg_once [Ev_register (ex_uart 0xd000)]
      (ex_uart 0xd008)) < 0"
    by (simp add: ex_register)
  have b: "addi_pciserial_init_ports ex_kernel_reg_once pci_serial_quirks ex_dev_io None
     (Board_entry pbn_b0_2_115200) [] =
     Some (Inr \<lparr>sp_dev = ex_dev_io, nr = 1, quirk = ex_terminator,
                 board = Board_entry pbn_b0_2_115200, line = [0, - 16]\<rparr>, ?w2)"
    using attach_truncation [where tmp = None and bp = "Board_entry pbn_b0_2_115200"
        and b = ex_board_2 and tbl = pci_serial_quirks and dev = ex_dev_io
        and q = ex_terminator and w = "[]" and ?rc0.0 = 0 and ?w1.0 = "[]"
        and k = ex_kernel_reg_once
        and s = "([0, 0], ex_uart 0, [])" and kk = "Suc 0"
        and u = "ex_uart 0xd008" and w' = "[Ev_register (ex_uart 0xd000)]",
        OF ex_board_at(1) ex_find(1) ex_run_init _ ex_kzalloc(2) s2 ex_attaches(2)] r
    by (simp add: ex_nr ex_setup_at ex_find ex_setup ex_register)
  have c: "addi_pciserial_init_ports ex_kernel pci_serial_quirks ex_dev_io None
     (Board_entry pbn_b0_2_115200) [] =
     Some (Inr \<lparr>sp_dev = ex_dev_io, nr = 2, quirk = ex_terminator,
                 board = Board_entry pbn_b0_2_115200, line = [0, 1]\<rparr>, ?w2)"
    and d: "unat (of_nat 2 :: u32) = 2"
    using attach_truncation [where tmp = None and bp = "Board_entry pbn_b0_2_115200"
        and b = ex_board_2 and tbl = pci_serial_quirks and dev = ex_dev_io
        and q = ex_terminator and w = "[]" and ?rc0.0 = 0 and ?w1.0 = "[]"
        and k = ex_kernel
        and s = "([0, 0], ex_uart 0, [])" and kk = 2,
        OF ex_board_at(1) ex_find(1) ex_run_init _ ex_kzalloc(1) s2 ex_attaches(3)]
    by (simp_all add: ex_nr ex_state_2)
  have r0: "sint (k_register ex_kernel_no_reg ?w0 (ex_uart 0xd000)) < 0"
    by (simp add: ex_register)
  have e: "addi_pciserial_init_ports ex_kernel_no_reg pci_serial_quirks ex_dev_io
     (Some ex_board_guessed) (Board_entry pbn_b0_2_115200) ?w0 =
     Some (Inr ?p0, ?w0 @ [Ev_register (ex_uart 0xd000)])"
    using attach_truncation [where tmp = "Some ex_board_guessed"
        and bp = "Board_entry pbn_b0_2_115200"
        and b = ex_board_2 and tbl = pci_serial_quirks and dev = ex_dev_io
        and q = ex_terminator and w = ?w0 and ?rc0.0 = 0 and ?w1.0 = ?w0
        and k = ex_kernel_no_reg
        and s = "([0, 0], ex_uart 0, ?w0)" and kk = 0
        and u = "ex_uart 0xd000" and w' = ?w0,
        OF ex_board_at(1) ex_find(1) ex_run_init _ ex_kzalloc(3) s2] r0
    by (simp add: ex_nr ex_setup_at ex_register)
  have f: "pciserial_init_one ex_kernel_no_reg pci_serial_quirks ex_dev_io pbn_b0_2_115200
      None [] = Some (0, Some ?p0, Some ex_board_guessed, ?w0 @ [Ev_register (ex_uart 0xd000)])"
    using attach_truncation [where tmp = "Some ex_board_guessed"
        and bp = "Board_entry pbn_b0_2_115200"
        and b = ex_board_2 and tbl = pci_serial_quirks and dev = ex_dev_io
        and q = ex_terminator and w = ?w0 and ?rc0.0 = 0 and ?w1.0 = ?w0
        and k = ex_kernel_no_reg
        and s = "([0, 0], ex_uart 0, ?w0)" and kk = 0
        and ?w0.0 = "[]" and wp = "[]" and driver_data = pbn_b0_2_115200
        and tb = ex_board_guessed and priv = ?p0
        and ?w4.0 = "?w0 @ [Ev_register (ex_uart 0xd000)]" and dd = None,
        OF ex_board_at(1) ex_find(1) ex_run_init _ ex_kzalloc(3) s2] e
    by (simp add: ex_probe_steps ex_resolve)
  from a b c d e f r r0 ex_attaches_at ex_setup_at(1,2) show ?thesis by simp
qed

text \<open>
  C4 as stated fails in its exception: when index 0 is not present, and when the
  registration of index 0 fails, the attach returns a session with attached count 0, and
  the probe returns 0 (success).
\<close>

theorem attach_index0_counterexample:
  "fst (pci_default_setup ex_kernel ex_dev_none ex_board_cap
         (uart_template ex_dev_none ex_board_cap) 0 []) = 1 \<and>
   attached_count (addi_pciserial_init_ports ex_kernel pci_serial_quirks ex_dev_none
     (Some ex_board_cap) Board_tmp []) = Some 0 \<and>
   sint (k_register ex_kernel_no_reg [] (ex_uart 0xd000)) < 0 \<and>
   attached_count (addi_pciserial_init_ports ex_kernel_no_reg pci_serial_quirks ex_dev_io
     None (Board_entry pbn_b0_2_115200) []) = Some 0 \<and>
   map_option fst (pciserial_init_one ex_kernel_no_reg pci_serial_quirks ex_dev_io
     pbn_b0_2_115200 None []) = Some 0"
proof -
  have a: "addi_pciserial_init_ports ex_kernel pci_serial_quirks ex_dev_none
     (Some ex_board_cap) Board_tmp [] =
     Some (Inr \<lparr>sp_dev = ex_dev_none, nr = 0, quirk = ex_terminator, board = Board_tmp,
                 line = [0, 0, 0, 0]\<rparr>, [])"
    by (simp add: addi_pciserial_init_ports_def ex_board_at ex_find ex_run_init ex_kzalloc
        ex_nr replicate_4 ex_template attach_loop.simps ex_setup)
  have b: "addi_pciserial_init_ports ex_kernel_no_reg pci_serial_quirks ex_dev_io
     tmp (Board_entry pbn_b0_2_115200) w =
     Some (Inr \<lparr>sp_dev = ex_dev_io, nr = 0, quirk = ex_terminator,
                 board = Board_entry pbn_b0_2_115200, line = [- 16, 0]\<rparr>,
           w @ [Ev_register (ex_uart 0xd000)])" for tmp w
    by (simp add: addi_pciserial_init_ports_def ex_board_at ex_find ex_run_init ex_kzalloc
        ex_nr replicate_2 ex_template attach_loop.simps ex_setup ex_register)
  have c: "pciserial_init_one ex_kernel_no_reg pci_serial_quirks ex_dev_io
     pbn_b0_2_115200 None [] =
     Some (0, Some \<lparr>sp_dev = ex_dev_io, nr = 0, quirk = ex_terminator,
                 board = Board_entry pbn_b0_2_115200, line = [- 16, 0]\<rparr>,
           Some ex_board_guessed,
           [Ev_enable_device, Ev_save_state, Ev_register (ex_uart 0xd000)])"
    using ex_probe_steps(3)
    by (simp add: pciserial_init_one_def ex_find ex_probe_steps(1,5) ex_resolve b)
  show ?thesis
    by (simp add: a b c attached_count_def ex_template ex_setup ex_register)
qed

text \<open>
  C9.  In every session that \<^verbatim>\<open>addi_pciserial_init_ports\<close> returns, the attached count
  is at most the length of the handle array and every handle below the attached count
  is non-negative; so suspend and resume skip no attached index: they call the port
  subsystem for exactly the first \<^verbatim>\<open>nr\<close> handles.
\<close>

theorem attached_handles_nonnegative:
  assumes "addi_pciserial_init_ports k tbl dev tmp bp w = Some (Inr priv, w')"
  shows "unat (nr priv) \<le> length (line priv) \<and>
         (\<forall>i < unat (nr priv). 0 \<le> sint (line priv ! i)) \<and>
         addi_pciserial_suspend_ports priv v =
           v @ map Ev_suspend (take (unat (nr priv)) (line priv))
             @ (case q_exit (quirk priv) of None \<Rightarrow> [] | Some u \<Rightarrow> [Ev_exit]) \<and>
         addi_pciserial_resume_ports priv v =
           v @ (case q_init (quirk priv) of None \<Rightarrow> [] | Some h \<Rightarrow> [Ev_init])
             @ map Ev_resume (take (unat (nr priv)) (line priv))"
proof -
  from init_ports_session [OF assms]
  have le: "unat (nr priv) \<le> length (line priv)"
    and pos: "\<forall>i < unat (nr priv). 0 \<le> sint (line priv ! i)" by auto
  have f: "filter (\<lambda>l. 0 \<le> sint l) (take (unat (nr priv)) (line priv)) =
           take (unat (nr priv)) (line priv)"
    using le pos by (rule filter_take_all)
  from le pos show ?thesis
    by (simp add: suspend_resume_events [OF le] f)
qed

text \<open>
  The two-port board on the device with one I/O region: the session has the handles 0
  and 1, and suspend touches both.
\<close>

theorem attached_handles_nonnegative_witness:
  "addi_pciserial_init_ports ex_kernel pci_serial_quirks ex_dev_io None
     (Board_entry pbn_b0_2_115200) [] =
     Some (Inr \<lparr>sp_dev = ex_dev_io, nr = 2, quirk = ex_terminator,
                 board = Board_entry pbn_b0_2_115200, line = [0, 1]\<rparr>,
           [Ev_register (ex_uart 0xd000), Ev_register (ex_uart 0xd008)]) \<and>
   addi_pciserial_suspend_ports
     \<lparr>sp_dev = ex_dev_io, nr = 2, quirk = ex_terminator,
      board = Board_entry pbn_b0_2_115200, line = [0, 1]\<rparr> [] =
     [Ev_suspend 0, Ev_suspend 1]"
proof -
  have r: "addi_pciserial_init_ports ex_kernel pci_serial_quirks ex_dev_io None
     (Board_entry pbn_b0_2_115200) [] =
     Some (Inr \<lparr>sp_dev = ex_dev_io, nr = 2, quirk = ex_terminator,
                 board = Board_entry pbn_b0_2_115200, line = [0, 1]\<rparr>,
           [Ev_register (ex_uart 0xd000), Ev_register (ex_uart 0xd008)])"
    by (simp add: addi_pciserial_init_ports_def ex_board_at ex_find ex_run_init ex_kzalloc
        ex_nr replicate_2 ex_template attach_loop.simps ex_setup ex_register)
  from attached_handles_nonnegative [OF r, of "[]"] r show ?thesis
    by (simp add: ex_find)
qed

subsection \<open>Probe and recovery after a bus fault\<close>

lemma default_board:
  "pci_boards ! pbn_default =
     \<lparr>flags = FL_BASE0, num_ports = 1, base_baud = 115200, uart_offset = 8,
      reg_shift = 0, first_offset = 0\<rparr>"
  by (simp add: pci_boards_def pbn_default_def)

lemma guess_default_fields:
  "base_baud (snd (serial_pci_guess_board dev (pci_boards ! pbn_default))) = 115200 \<and>
   uart_offset (snd (serial_pci_guess_board dev (pci_boards ! pbn_default))) = 8 \<and>
   reg_shift (snd (serial_pci_guess_board dev (pci_boards ! pbn_default))) = 0 \<and>
   first_offset (snd (serial_pci_guess_board dev (pci_boards ! pbn_default))) = 0"
proof -
  obtain f n where
    "snd (serial_pci_guess_board dev (pci_boards ! pbn_default)) =
       (pci_boards ! pbn_default)\<lparr>flags := f, num_ports := n\<rparr>"
    using guess_writes_two_fields by blast
  then show ?thesis by (simp add: default_board)
qed

text \<open>
  A probe through \<^verbatim>\<open>pbn_default\<close> that returns 0 has stored a session whose
  \<^verbatim>\<open>board\<close> is the address of \<^verbatim>\<open>tmp\<close>, and \<^verbatim>\<open>tmp\<close> holds what the heuristic made
  of the copy of the default entry.
\<close>

lemma init_one_default_board:
  assumes "pciserial_init_one k tbl dev pbn_default None w = Some (0, Some priv, tmp, w')"
  shows "board priv = Board_tmp \<and>
         tmp = Some (snd (serial_pci_guess_board dev (pci_boards ! pbn_default)))"
  using assms
  by (auto simp: pciserial_init_one_def resolve_board_def dest!: init_ports_board
      split: option.splits prod.splits if_splits sum.splits)

lemma init_ports_capacity:
  assumes "addi_pciserial_init_ports k tbl dev tmp bp w = Some (Inr priv, w')"
  shows "\<exists>b. board_at tmp bp = Some b \<and>
           length (line priv) =
             nat (sint (nr_ports_of b (fst (run_init (quirk priv) dev w))))"
proof -
  from assms obtain b q rc w1 i ln uart' where
    b: "board_at tmp bp = Some b" and r: "run_init q dev w = (rc, w1)"
    and a: "attach_loop k q dev b (nr_ports_of b rc) 0
              (replicate (nat (sint (nr_ports_of b rc))) 0) (uart_template dev b) w1 =
            (i, ln, uart', w')"
    and p: "priv = \<lparr>sp_dev = dev, nr = of_nat i, quirk = q, board = bp, line = ln\<rparr>"
    by (auto simp: addi_pciserial_init_ports_def
        split: option.splits prod.splits if_splits)
  from attach_loop_inv [OF a] have "length ln = nat (sint (nr_ports_of b rc))" by simp
  with b r p show ?thesis by simp
qed

text \<open>Recovery reads through \<^verbatim>\<open>priv->board\<close> when no frame of the probe exists.\<close>

lemma io_resume_tmp:
  "board priv = Board_tmp \<Longrightarrow> serial8250_io_resume k tbl dev (Some priv) v = None"
  by (simp add: serial8250_io_resume_def addi_pciserial_init_ports_def board_at_def)

text \<open>
  C10.  \<^verbatim>\<open>serial_pci_guess_board\<close> writes only the \<^verbatim>\<open>flags\<close> and \<^verbatim>\<open>num_ports\<close>
  fields of the board it is given.  Given the copy of the default entry of
  \<^verbatim>\<open>pci_boards\<close>, as \<^verbatim>\<open>pciserial_init_one\<close> does for an unknown device, the board
  keeps base baud 115200, stride 8, register shift 0 and first offset 0, and so does
  the board that the session of a successful probe points to, which is the local
  \<^verbatim>\<open>tmp\<close> of the probe.  In phase 1 the flags are the index of the I/O region: that
  index is the base BAR and the board is not BAR-indexed.
\<close>

theorem guess_board_frame:
  "(\<exists>f n. snd (serial_pci_guess_board dev b) = b\<lparr>flags := f, num_ports := n\<rparr>) \<and>
   base_baud (snd (serial_pci_guess_board dev (pci_boards ! pbn_default))) = 115200 \<and>
   uart_offset (snd (serial_pci_guess_board dev (pci_boards ! pbn_default))) = 8 \<and>
   reg_shift (snd (serial_pci_guess_board dev (pci_boards ! pbn_default))) = 0 \<and>
   first_offset (snd (serial_pci_guess_board dev (pci_boards ! pbn_default))) = 0 \<and>
   (pciserial_init_one k tbl dev pbn_default None w = Some (0, Some priv, tmp, w') \<longrightarrow>
      (\<exists>b'. board_at tmp (board priv) = Some b' \<and>
         b' = snd (serial_pci_guess_board dev (pci_boards ! pbn_default)) \<and>
         base_baud b' = 115200 \<and> uart_offset b' = 8 \<and>
         reg_shift b' = 0 \<and> first_offset b' = 0)) \<and>
   (serial_pci_is_class_communication dev = 0 \<and>
    drop_bit 8 (dev_class dev) \<noteq> PCI_CLASS_COMMUNICATION_MULTISERIAL \<and>
    length (spec_mem_regions dev) \<le> 1 \<and> spec_io_regions dev = [j] \<longrightarrow>
      fst (serial_pci_guess_board dev b) = 0 \<and>
      flags (snd (serial_pci_guess_board dev b)) = word_of_int j \<and>
      FL_GET_BASE (flags (snd (serial_pci_guess_board dev b))) = word_of_int j \<and>
      \<not> spec_bar_indexed (snd (serial_pci_guess_board dev b)) \<and>
      pci_resource_flags dev j AND IORESOURCE_IO \<noteq> 0)"
proof -
  have A: "\<exists>f n. snd (serial_pci_guess_board dev b) = b\<lparr>flags := f, num_ports := n\<rparr>"
    by (rule guess_writes_two_fields)
  have B: "\<exists>b'. board_at tmp (board priv) = Some b' \<and>
         b' = snd (serial_pci_guess_board dev (pci_boards ! pbn_default)) \<and>
         base_baud b' = 115200 \<and> uart_offset b' = 8 \<and>
         reg_shift b' = 0 \<and> first_offset b' = 0"
    if "pciserial_init_one k tbl dev pbn_default None w = Some (0, Some priv, tmp, w')"
  proof -
    from that have "board priv = Board_tmp \<and>
        tmp = Some (snd (serial_pci_guess_board dev (pci_boards ! pbn_default)))"
      by (rule init_one_default_board)
    then have "board_at tmp (board priv) =
        Some (snd (serial_pci_guess_board dev (pci_boards ! pbn_default)))"
      by (simp add: board_at_def)
    then show ?thesis using guess_default_fields [of dev] by simp
  qed
  have C: "fst (serial_pci_guess_board dev b) = 0 \<and>
      flags (snd (serial_pci_guess_board dev b)) = word_of_int j \<and>
      FL_GET_BASE (flags (snd (serial_pci_guess_board dev b))) = word_of_int j \<and>
      \<not> spec_bar_indexed (snd (serial_pci_guess_board dev b)) \<and>
      pci_resource_flags dev j AND IORESOURCE_IO \<noteq> 0"
    if h: "serial_pci_is_class_communication dev = 0 \<and>
      drop_bit 8 (dev_class dev) \<noteq> PCI_CLASS_COMMUNICATION_MULTISERIAL \<and>
      length (spec_mem_regions dev) \<le> 1 \<and> spec_io_regions dev = [j]"
  proof -
    from h have g: "serial_pci_guess_board dev b =
        (0, b\<lparr>flags := word_of_int j, num_ports := ucast (pci_resource_len dev j div 8)\<rparr>)"
      by (simp add: guess_phase1)
    from h have "spec_io_regions dev = [j]" by simp
    then have r: "j \<in> {0, 1, 2, 3, 4, 5}" by (rule io_slot_range)
    from h have "j \<in> set (spec_io_regions dev)" by simp
    then have io: "pci_resource_flags dev j AND IORESOURCE_IO \<noteq> 0"
      by (simp add: spec_io_regions_def)
    show ?thesis
      using base_of_slot [OF r] io by (simp add: g spec_bar_indexed_def)
  qed
  from A B C guess_default_fields [of dev] show ?thesis by blast
qed

text \<open>The default layout of the guessed board on the region of 64 bytes.\<close>

lemma ex_setup_guessed:
  "pci_default_setup k ex_dev_io ex_board_guessed (ex_uart x) 0 w = (0, ex_uart 0xd000, w)"
  "pci_default_setup k ex_dev_io ex_board_guessed (ex_uart x) 1 w = (0, ex_uart 0xd008, w)"
  "pci_default_setup k ex_dev_io ex_board_guessed (ex_uart x) 2 w = (0, ex_uart 0xd010, w)"
  "pci_default_setup k ex_dev_io ex_board_guessed (ex_uart x) 3 w = (0, ex_uart 0xd018, w)"
  "pci_default_setup k ex_dev_io ex_board_guessed (ex_uart x) 4 w = (0, ex_uart 0xd020, w)"
  "pci_default_setup k ex_dev_io ex_board_guessed (ex_uart x) 5 w = (0, ex_uart 0xd028, w)"
  "pci_default_setup k ex_dev_io ex_board_guessed (ex_uart x) 6 w = (0, ex_uart 0xd030, w)"
  "pci_default_setup k ex_dev_io ex_board_guessed (ex_uart x) 7 w = (0, ex_uart 0xd038, w)"
  by (simp_all add: pci_default_setup_def setup_port_def ex_uart_def ex_board_guessed_def
      ex_defs const_defs word_le_nat_alt)

lemma ex_probe_default:
  "pciserial_init_one ex_kernel pci_serial_quirks ex_dev_io pbn_default None [] =
     Some (0, Some ex_probed, Some ex_board_guessed, ex_probe_events)"
proof -
  have a: "addi_pciserial_init_ports ex_kernel pci_serial_quirks ex_dev_io
      (Some ex_board_guessed) Board_tmp [Ev_enable_device, Ev_save_state] =
      Some (Inr ex_probed, ex_probe_events)"
    by (simp add: addi_pciserial_init_ports_def ex_board_at ex_find ex_run_init ex_kzalloc
        ex_nr replicate_8 ex_template attach_loop.simps ex_setup_guessed ex_register
        ex_probed_def ex_probe_events_def)
  show ?thesis
    using ex_probe_steps(2)
    by (simp add: pciserial_init_one_def ex_find ex_probe_steps(1,4) ex_resolve a)
qed

text \<open>
  The unknown 16550 controller with one I/O region of 64 bytes at BAR 0: the heuristic
  gives flags 0 and 8 ports and keeps the other fields of the default entry; the probe
  stores a session with 8 attached ports whose board is the local \<^verbatim>\<open>tmp\<close>, and
  \<^verbatim>\<open>tmp\<close> is that board.
\<close>

theorem guess_board_frame_witness:
  "serial_pci_is_class_communication ex_dev_io = 0 \<and>
   drop_bit 8 (dev_class ex_dev_io) \<noteq> PCI_CLASS_COMMUNICATION_MULTISERIAL \<and>
   length (spec_mem_regions ex_dev_io) \<le> 1 \<and> spec_io_regions ex_dev_io = [0] \<and>
   serial_pci_guess_board ex_dev_io (pci_boards ! pbn_default) =
     (0, \<lparr>flags = 0, num_ports = 8, base_baud = 115200, uart_offset = 8, reg_shift = 0,
          first_offset = 0\<rparr>) \<and>
   pciserial_init_one ex_kernel pci_serial_quirks ex_dev_io pbn_default None [] =
     Some (0, Some ex_probed, Some ex_board_guessed, ex_probe_events) \<and>
   board_at (Some ex_board_guessed) (board ex_probed) =
     Some \<lparr>flags = 0, num_ports = 8, base_baud = 115200, uart_offset = 8, reg_shift = 0,
           first_offset = 0\<rparr> \<and>
   unat (nr ex_probed) = 8"
proof -
  have n: "unat (nr ex_probed) = 8" by (simp add: ex_probed_def)
  from guess_board_frame [of ex_dev_io "pci_boards ! pbn_default" ex_kernel pci_serial_quirks
      "[]" ex_probed "Some ex_board_guessed" ex_probe_events 0] ex_probe_default n ex_guess
  show ?thesis
    by (auto simp: ex_dev_regions ex_dev_io_class class_defs ex_board_guessed_def)
qed

text \<open>
  C8 (a defect of the code).  A probe through \<^verbatim>\<open>pbn_default\<close> that succeeds stores a
  session whose \<^verbatim>\<open>board\<close> is the address of the local \<^verbatim>\<open>tmp\<close> of
  \<^verbatim>\<open>pciserial_init_one\<close>, which holds the resolved board until the probe returns.
  \<^verbatim>\<open>serial8250_io_resume\<close> passes that pointer to \<^verbatim>\<open>addi_pciserial_init_ports\<close>,
  which reads \<^verbatim>\<open>board->num_ports\<close> through it: the object is dead, and the rebuild
  has no defined result, so the session is not rebuilt from the original board.  For a
  session whose board is entry \<open>i\<close> of \<^verbatim>\<open>pci_boards\<close> the recovery is as described: a
  session that attach returns becomes the driver data, with the same board pointer and
  with room for the nominal count of that entry (or for the count that the \<^verbatim>\<open>init\<close>
  hook returns in its place), and the old session is freed; when attach fails the driver
  data stays as it was, the attempt has called at most the \<^verbatim>\<open>init\<close> and \<^verbatim>\<open>exit\<close>
  hooks, and nothing else is tried.
\<close>

theorem io_resume_dangling_board:
  "(pciserial_init_one k tbl dev pbn_default None w = Some (0, Some priv, tmp, w') \<longrightarrow>
      board priv = Board_tmp \<and>
      tmp = Some (snd (serial_pci_guess_board dev (pci_boards ! pbn_default))) \<and>
      serial8250_io_resume k tbl dev (Some priv) v = None) \<and>
   (board priv = Board_entry i \<and>
    addi_pciserial_init_ports k tbl dev None (board priv) v = Some (Inr new, v1) \<longrightarrow>
      serial8250_io_resume k tbl dev (Some priv) v = Some (Some new, v1 @ [Ev_kfree]) \<and>
      board new = board priv \<and> i < length pci_boards \<and>
      length (line new) =
        nat (sint (nr_ports_of (pci_boards ! i) (fst (run_init (quirk new) dev v))))) \<and>
   (addi_pciserial_init_ports k tbl dev None (board priv) v = Some (Inl e, v1) \<longrightarrow>
      serial8250_io_resume k tbl dev (Some priv) v = Some (Some priv, v1) \<and>
      (\<exists>ev. v1 = v @ ev \<and> set ev \<subseteq> {Ev_init, Ev_exit}))"
proof -
  have A: "board priv = Board_tmp \<and>
      tmp = Some (snd (serial_pci_guess_board dev (pci_boards ! pbn_default))) \<and>
      serial8250_io_resume k tbl dev (Some priv) v = None"
    if h: "pciserial_init_one k tbl dev pbn_default None w = Some (0, Some priv, tmp, w')"
    using init_one_default_board [OF h] io_resume_tmp [of priv k tbl dev v] by simp
  have B: "serial8250_io_resume k tbl dev (Some priv) v = Some (Some new, v1 @ [Ev_kfree]) \<and>
      board new = board priv \<and> i < length pci_boards \<and>
      length (line new) =
        nat (sint (nr_ports_of (pci_boards ! i) (fst (run_init (quirk new) dev v))))"
    if h: "board priv = Board_entry i \<and>
      addi_pciserial_init_ports k tbl dev None (board priv) v = Some (Inr new, v1)"
  proof -
    from h have r: "addi_pciserial_init_ports k tbl dev None (board priv) v =
        Some (Inr new, v1)" by (rule conjunct2)
    from init_ports_capacity [OF r] h
    have c: "i < length pci_boards \<and> length (line new) =
        nat (sint (nr_ports_of (pci_boards ! i) (fst (run_init (quirk new) dev v))))"
      by (auto simp: board_at_def split: if_splits)
    from init_ports_board [OF r] r c show ?thesis
      by (simp add: serial8250_io_resume_def)
  qed
  have C: "serial8250_io_resume k tbl dev (Some priv) v = Some (Some priv, v1) \<and>
      (\<exists>ev. v1 = v @ ev \<and> set ev \<subseteq> {Ev_init, Ev_exit})"
    if h: "addi_pciserial_init_ports k tbl dev None (board priv) v = Some (Inl e, v1)"
    using init_ports_error_events [OF h] h by (simp add: serial8250_io_resume_def)
  from A B C show ?thesis by blast
qed

text \<open>
  The failing input: the 16550 controller with one I/O region of 64 bytes is probed
  through \<^verbatim>\<open>pbn_default\<close>; the session has eight ports and its board is \<^verbatim>\<open>&tmp\<close>;
  the recovery of that session is undefined.  Recovery of a session of the two-port
  board of the catalog: the rebuilt session has two ports and the old one is freed; on
  a kernel that refuses the allocation the old session stays and nothing is registered.
\<close>

theorem io_resume_dangling_board_witness:
  "pciserial_init_one ex_kernel pci_serial_quirks ex_dev_io pbn_default None [] =
     Some (0, Some ex_probed, Some ex_board_guessed, ex_probe_events) \<and>
   board ex_probed = Board_tmp \<and>
   serial_pci_guess_board ex_dev_io (pci_boards ! pbn_default) = (0, ex_board_guessed) \<and>
   num_ports ex_board_guessed = 8 \<and>
   serial8250_io_resume ex_kernel pci_serial_quirks ex_dev_io (Some ex_probed) [] = None \<and>
   board ex_session = Board_entry pbn_b0_2_115200 \<and>
   addi_pciserial_init_ports ex_kernel pci_serial_quirks ex_dev_io None (board ex_session) [] =
     Some (Inr \<lparr>sp_dev = ex_dev_io, nr = 2, quirk = ex_terminator,
                 board = Board_entry pbn_b0_2_115200, line = [0, 1]\<rparr>,
           [Ev_register (ex_uart 0xd000), Ev_register (ex_uart 0xd008)]) \<and>
   serial8250_io_resume ex_kernel pci_serial_quirks ex_dev_io (Some ex_session) [] =
     Some (Some \<lparr>sp_dev = ex_dev_io, nr = 2, quirk = ex_terminator,
                  board = Board_entry pbn_b0_2_115200, line = [0, 1]\<rparr>,
           [Ev_register (ex_uart 0xd000), Ev_register (ex_uart 0xd008), Ev_kfree]) \<and>
   num_ports (pci_boards ! pbn_b0_2_115200) = 2 \<and>
   addi_pciserial_init_ports ex_kernel_no_mem pci_serial_quirks ex_dev_io None
     (board ex_session) [] = Some (Inl (- ENOMEM), []) \<and>
   serial8250_io_resume ex_kernel_no_mem pci_serial_quirks ex_dev_io (Some ex_session) [] =
     Some (Some ex_session, [])"
proof -
  let ?new = "\<lparr>sp_dev = ex_dev_io, nr = 2, quirk = ex_terminator,
                 board = Board_entry pbn_b0_2_115200, line = [0, 1]\<rparr>"
  let ?w = "[Ev_register (ex_uart 0xd000), Ev_register (ex_uart 0xd008)]"
  have b: "board ex_session = Board_entry pbn_b0_2_115200"
    "num_ports (pci_boards ! pbn_b0_2_115200) = 2"
    "board ex_probed = Board_tmp" "num_ports ex_board_guessed = 8"
    by (simp_all add: ex_session_def ex_probed_def ex_board_guessed_def pci_boards_def
        pbn_b0_2_115200_def)
  have r: "addi_pciserial_init_ports ex_kernel pci_serial_quirks ex_dev_io None
      (board ex_session) [] = Some (Inr ?new, ?w)"
    unfolding b
    by (simp add: addi_pciserial_init_ports_def ex_board_at ex_find ex_run_init ex_kzalloc
        ex_nr replicate_2 ex_template attach_loop.simps ex_setup ex_register)
  have f: "addi_pciserial_init_ports ex_kernel_no_mem pci_serial_quirks ex_dev_io None
     (board ex_session) [] = Some (Inl (- ENOMEM), [])"
    unfolding b
    by (simp add: addi_pciserial_init_ports_def ex_board_at ex_find ex_run_init ex_kzalloc)
  have u: "serial8250_io_resume ex_kernel pci_serial_quirks ex_dev_io (Some ex_probed) [] =
      None"
    using io_resume_dangling_board [of ex_kernel pci_serial_quirks ex_dev_io "[]" ex_probed
        "Some ex_board_guessed" ex_probe_events "[]"] ex_probe_default
    by simp
  have s: "serial8250_io_resume ex_kernel pci_serial_quirks ex_dev_io (Some ex_session) [] =
      Some (Some ?new, ?w @ [Ev_kfree])"
    using io_resume_dangling_board [of ex_kernel pci_serial_quirks ex_dev_io "[]" ex_session
        "Some ex_board_guessed" ex_probe_events "[]" pbn_b0_2_115200 ?new ?w] r b(1)
    by simp
  have t: "serial8250_io_resume ex_kernel_no_mem pci_serial_quirks ex_dev_io
      (Some ex_session) [] = Some (Some ex_session, [])"
    using io_resume_dangling_board [of ex_kernel_no_mem pci_serial_quirks ex_dev_io "[]"
        ex_session "Some ex_board_guessed" ex_probe_events "[]" pbn_b0_2_115200 ?new "[]"
        "- ENOMEM"] f
    by simp
  from ex_probe_default ex_guess b r f u s t show ?thesis by simp
qed

end
